theory Spec2Isabelle
  imports Complex_Main "HOL-Library.AList"
begin

section \<open>Errors\<close>

text \<open>
  Every \<^verbatim>\<open>raise\<close> of the sources is a value of type \<open>error\<close>.
  \<open>ValueError fmt args\<close> and \<open>TypeError fmt args\<close> stand for
  \<^verbatim>\<open>ValueError(fmt % args)\<close> and \<^verbatim>\<open>TypeError(fmt % args)\<close>;
  \<open>AttributeError a\<close> is the failed lookup of attribute \<open>a\<close>.
  The helpers of \<^verbatim>\<open>composes.utils\<close> and the matrix classes are not among the
  sources; the errors they raise carry the names the specification gives them
  (\<open>TypeMismatch\<close>, \<open>ShapeMismatch\<close>, \<open>MappingMismatch\<close>, \<open>DuplicateKey\<close>);
  \<open>IndexError\<close> is a subscript out of range.
\<close>

datatype fmt_arg = Str string | Num nat | Type_of_received

datatype error =
    ValueError string "fmt_arg list"
  | TypeError string "fmt_arg list"
  | AttributeError string
  | TypeMismatch
  | ShapeMismatch
  | MappingMismatch
  | DuplicateKey
  | IndexError

section \<open>The matrix capability\<close>

text \<open>
  A matrix is a rectangular table of numbers with a shape. The column count is kept
  beside the rows, so that a matrix with no rows still has one. Entries are real numbers:
  rounding of the floating point entries is not modelled.
\<close>

record matrix =
  ncols :: nat
  entries :: "real list list"

definition nrows :: "matrix \<Rightarrow> nat" where
  "nrows m = length (entries m)"

definition shape :: "matrix \<Rightarrow> nat \<times> nat" where
  "shape m = (nrows m, ncols m)"

definition matrix_ok :: "matrix \<Rightarrow> bool" where
  "matrix_ok m = list_all (\<lambda>r. length r = ncols m) (entries m)"

definition dot :: "real list \<Rightarrow> real list \<Rightarrow> real" where
  "dot u v = sum_list (map2 (*) u v)"

definition col :: "matrix \<Rightarrow> nat \<Rightarrow> real list" where
  "col m j = map (\<lambda>r. r ! j) (entries m)"

text \<open>Modelled from the spec: the matrix capability's \<^verbatim>\<open>transpose()\<close>.\<close>

definition transpose_matrix :: "matrix \<Rightarrow> matrix" where
  "transpose_matrix m = \<lparr>ncols = nrows m, entries = map (col m) [0..<ncols m]\<rparr>"

text \<open>
  Modelled from the spec: the matrix capability's matrix multiply (\<^verbatim>\<open>*\<close> on two
  matrices), which fails when the inner dimensions differ.
\<close>

definition multiply :: "matrix \<Rightarrow> matrix \<Rightarrow> error + matrix" where
  "multiply a b =
     (if ncols a \<noteq> nrows b then Inl ShapeMismatch
      else Inr \<lparr>ncols = ncols b,
                entries = map (\<lambda>r. map (\<lambda>j. dot r (col b j)) [0..<ncols b]) (entries a)\<rparr>)"

text \<open>
  Modelled from the spec: the matrix capability's \<^verbatim>\<open>add\<close> (\<^verbatim>\<open>+\<close> on two
  matrices), entry by entry on matrices of one shape.
\<close>

definition add :: "matrix \<Rightarrow> matrix \<Rightarrow> error + matrix" where
  "add a b =
     (if shape a \<noteq> shape b then Inl ShapeMismatch
      else Inr \<lparr>ncols = ncols a, entries = map2 (map2 (+)) (entries a) (entries b)\<rparr>)"

text \<open>Modelled from the spec: the matrix capability's \<^verbatim>\<open>hstack\<close>.\<close>

definition hstack :: "matrix \<Rightarrow> matrix \<Rightarrow> error + matrix" where
  "hstack a b =
     (if nrows a \<noteq> nrows b then Inl ShapeMismatch
      else Inr \<lparr>ncols = ncols a + ncols b, entries = map2 (@) (entries a) (entries b)\<rparr>)"

text \<open>
  Modelled from the spec: \<^verbatim>\<open>padd_matrix(mat, value)\<close> of
  \<^verbatim>\<open>composes.utils.matrix_utils2\<close>, appending a constant column.
\<close>

definition padd_matrix :: "matrix \<Rightarrow> real \<Rightarrow> matrix" where
  "padd_matrix m v = \<lparr>ncols = ncols m + 1, entries = map (\<lambda>r. r @ [v]) (entries m)\<rparr>"

text \<open>
  Modelled from the spec: the matrix capability's indexing by a row slice,
  \<^verbatim>\<open>m[lo:hi, :]\<close> and \<^verbatim>\<open>m[lo:, :]\<close>. A slice never fails: bounds beyond
  the last row are cut off.
\<close>

definition rows_slice :: "matrix \<Rightarrow> nat \<Rightarrow> nat \<Rightarrow> matrix" where
  "rows_slice m lo hi = m\<lparr>entries := drop lo (take hi (entries m))\<rparr>"

definition rows_from :: "matrix \<Rightarrow> nat \<Rightarrow> matrix" where
  "rows_from m lo = m\<lparr>entries := drop lo (entries m)\<rparr>"

section \<open>The regression learner capability\<close>

record regression_learner =
  learner_has_intercept :: bool
  learner_train :: "matrix \<Rightarrow> matrix \<Rightarrow> error + matrix"

section \<open>The additive composition model (full_additive.py)\<close>

text \<open>
  Python values that reach the constructor through \<^verbatim>\<open>**kwargs\<close>: a matrix, a
  regression learner, or any other object.
\<close>

datatype pyval = MatrixV matrix | LearnerV regression_learner | ObjectV

text \<open>
  The attributes of a \<^verbatim>\<open>FullAdditive\<close> object. \<^verbatim>\<open>_mat_a_t\<close>,
  \<^verbatim>\<open>_mat_b_t\<close> and \<^verbatim>\<open>_regression_learner\<close> are \<open>None\<close> while the
  attribute has not been assigned; reading one then raises \<open>AttributeError\<close>.
\<close>

record full_additive =
  mat_a_t :: "matrix option"
  mat_b_t :: "matrix option"
  has_intercept :: bool
  regression_learner :: "regression_learner option"

text \<open>Modelled from the spec: \<^verbatim>\<open>is_array_or_matrix\<close>, true of the recognised matrix types.\<close>

definition is_array_or_matrix :: "pyval \<Rightarrow> bool" where
  "is_array_or_matrix v = (case v of MatrixV _ \<Rightarrow> True | _ \<Rightarrow> False)"

text \<open>
  Modelled from the spec: \<^verbatim>\<open>to_compatible_matrix_types(a, b)\<close> returns both operands
  in one concrete representation. The representation (dense or sparse) is not part of
  \<open>matrix\<close>, so the values are returned as they are.
\<close>

definition to_compatible_matrix_types :: "matrix \<Rightarrow> matrix \<Rightarrow> matrix \<times> matrix" where
  "to_compatible_matrix_types a b = (a, b)"

text \<open>
  \<^verbatim>\<open>FullAdditive.__init__(self, **kwargs)\<close>. The first argument is the learner that
  \<^verbatim>\<open>RidgeRegressionLearner()\<close> builds (the class is not among the sources).
\<close>

definition FullAdditive_init ::
  "regression_learner \<Rightarrow> (string \<rightharpoonup> pyval) \<Rightarrow> error + full_additive" where
  "FullAdditive_init RidgeRegressionLearner kwargs =
     (if kwargs ''A'' \<noteq> None \<and> kwargs ''B'' \<noteq> None then
        (let mat_a = the (kwargs ''A''); mat_b = the (kwargs ''B'') in
         if \<not> is_array_or_matrix mat_a
           then Inl (TypeError ''expected matrix type, received: %s'' [Type_of_received])
         else if \<not> is_array_or_matrix mat_b
           then Inl (TypeError ''expected matrix type, received: %s'' [Type_of_received])
         else (case (mat_a, mat_b) of
                 (MatrixV a, MatrixV b) \<Rightarrow>
                   (let (a', b') = to_compatible_matrix_types a b in
                    Inr \<lparr>mat_a_t = Some (transpose_matrix a'), mat_b_t = Some (transpose_matrix b'),
                         has_intercept = False, regression_learner = None\<rparr>)
               | _ \<Rightarrow> Inl TypeMismatch))
      else
        (let learner = (case kwargs ''learner'' of
                          None \<Rightarrow> LearnerV RidgeRegressionLearner
                        | Some v \<Rightarrow> v) in
         case learner of
           LearnerV l \<Rightarrow>
             Inr \<lparr>mat_a_t = None, mat_b_t = None,
                  has_intercept = learner_has_intercept l, regression_learner = Some l\<rparr>
         | _ \<Rightarrow> Inl (AttributeError ''has_intercept'')))"

text \<open>
  \<^verbatim>\<open>FullAdditive._train(self, arg1_mat, arg2_mat, phrase_mat)\<close>, returning the
  object as the assignments leave it.
\<close>

definition FullAdditive_train ::
  "full_additive \<Rightarrow> matrix \<Rightarrow> matrix \<Rightarrow> matrix \<Rightarrow> error + full_additive" where
  "FullAdditive_train self arg1_mat arg2_mat phrase_mat =
     (case regression_learner self of
        None \<Rightarrow> Inl (AttributeError ''_regression_learner'')
      | Some learner \<Rightarrow>
          (let self1 = self\<lparr>has_intercept := learner_has_intercept learner\<rparr> in
           case hstack arg1_mat arg2_mat of
             Inl e \<Rightarrow> Inl e
           | Inr design \<Rightarrow>
               (case learner_train learner design phrase_mat of
                  Inl e \<Rightarrow> Inl e
                | Inr result \<Rightarrow>
                    Inr (self1\<lparr>mat_a_t := Some (rows_slice result 0 (ncols arg1_mat)),
                               mat_b_t := Some (rows_from result (ncols arg1_mat))\<rparr>))))"

text \<open>
  \<^verbatim>\<open>FullAdditive._compose(self, arg1_mat, arg2_mat)\<close>. The operands are evaluated
  from left to right, as Python does: the first product, the padding, the second product,
  the sum.
\<close>

definition FullAdditive_compose ::
  "full_additive \<Rightarrow> matrix \<Rightarrow> matrix \<Rightarrow> error + matrix" where
  "FullAdditive_compose self arg1_mat arg2_mat =
     (if has_intercept self then
        (case mat_a_t self of
           None \<Rightarrow> Inl (AttributeError ''_mat_a_t'')
         | Some a_t \<Rightarrow>
             (case multiply arg1_mat a_t of
                Inl e \<Rightarrow> Inl e
              | Inr p1 \<Rightarrow>
                  (let padded = padd_matrix arg2_mat 1 in
                   case mat_b_t self of
                     None \<Rightarrow> Inl (AttributeError ''_mat_b_t'')
                   | Some b_t \<Rightarrow>
                       (case multiply padded b_t of
                          Inl e \<Rightarrow> Inl e
                        | Inr p2 \<Rightarrow> add p1 p2))))
      else
        (case mat_a_t self of
           None \<Rightarrow> Inl (AttributeError ''_mat_a_t'')
         | Some a_t \<Rightarrow>
             (case multiply arg1_mat a_t of
                Inl e \<Rightarrow> Inl e
              | Inr p1 \<Rightarrow>
                  (case mat_b_t self of
                     None \<Rightarrow> Inl (AttributeError ''_mat_b_t'')
                   | Some b_t \<Rightarrow>
                       (case multiply arg2_mat b_t of
                          Inl e \<Rightarrow> Inl e
                        | Inr p2 \<Rightarrow> add p1 p2)))))"

section \<open>Semantic spaces (space.py)\<close>

subsection \<open>Python objects\<close>

text \<open>
  An argument that the code checks with \<^verbatim>\<open>assert_is_instance\<close> is an instance of
  the class asked for, or any other object.
\<close>

datatype 'a pyarg = Instance 'a | Other_object

text \<open>
  Modelled from the spec: \<^verbatim>\<open>assert_is_instance\<close> of
  \<^verbatim>\<open>composes.utils.space_utils\<close> fails with a TypeMismatch error when the object
  is not an instance of the class (or of one of the classes) asked for.
\<close>

definition assert_is_instance :: "'a pyarg \<Rightarrow> error + 'a" where
  "assert_is_instance obj = (case obj of Instance x \<Rightarrow> Inr x | Other_object \<Rightarrow> Inl TypeMismatch)"

text \<open>
  An operation is the replayable record a transformation creates; its
  \<^verbatim>\<open>apply(matrix)\<close> gives the new matrix or fails.
\<close>

datatype operation = Operation (op_apply: "matrix \<Rightarrow> error + matrix")

text \<open>
  The three transformation classes \<^verbatim>\<open>Space.apply\<close> accepts. Each carries the
  operation its \<^verbatim>\<open>create_operation()\<close> returns; a feature selection also carries
  its \<^verbatim>\<open>selected_columns\<close>, the list of the selected column indices.
\<close>

datatype transformation =
    Weighting operation
  | DimensionalityReduction operation
  | FeatureSelection operation "int list"

fun create_operation :: "transformation \<Rightarrow> operation" where
  "create_operation (Weighting op) = op"
| "create_operation (DimensionalityReduction op) = op"
| "create_operation (FeatureSelection op sel) = op"

text \<open>
  The similarity capability: \<^verbatim>\<open>get_sim(v1, v2)\<close> scores two row vectors,
  \<^verbatim>\<open>get_sims_to_matrix(v, m)\<close> gives the column of the scores of \<open>v\<close> against the
  rows of \<open>m\<close>. A row vector is a matrix of one row.
\<close>

record similarity =
  sim_get_sim :: "matrix \<Rightarrow> matrix \<Rightarrow> error + real"
  sim_get_sims_to_matrix :: "matrix \<Rightarrow> matrix \<Rightarrow> error + matrix"

subsection \<open>The store of lists and dicts\<close>

text \<open>
  The lists and dicts of a space are Python objects: two names may refer to one object,
  and \<^verbatim>\<open>append\<close> or an item assignment changes the object for every name that refers
  to it. A store maps references to the objects' contents, one component per kind of
  object; every reference below \<open>fresh\<close> is in use. A dict is the list of its items, in
  insertion order, with no key twice.
\<close>

type_synonym ref = nat

type_synonym pydict = "(string \<times> nat) list"

record heap =
  str_lists :: "ref \<Rightarrow> string list"
  dicts :: "ref \<Rightarrow> pydict"
  op_lists :: "ref \<Rightarrow> operation list"
  fresh :: ref

definition new_str_list :: "heap \<Rightarrow> string list \<Rightarrow> ref \<times> heap" where
  "new_str_list h xs =
     (fresh h, h\<lparr>str_lists := (str_lists h)(fresh h := xs), fresh := Suc (fresh h)\<rparr>)"

definition new_dict :: "heap \<Rightarrow> pydict \<Rightarrow> ref \<times> heap" where
  "new_dict h d =
     (fresh h, h\<lparr>dicts := (dicts h)(fresh h := d), fresh := Suc (fresh h)\<rparr>)"

definition new_op_list :: "heap \<Rightarrow> operation list \<Rightarrow> ref \<times> heap" where
  "new_op_list h ops =
     (fresh h, h\<lparr>op_lists := (op_lists h)(fresh h := ops), fresh := Suc (fresh h)\<rparr>)"

text \<open>\<^verbatim>\<open>lst.append(x)\<close> on the list object at \<open>r\<close>.\<close>

definition append_op :: "heap \<Rightarrow> ref \<Rightarrow> operation \<Rightarrow> heap" where
  "append_op h r x = h\<lparr>op_lists := (op_lists h)(r := op_lists h r @ [x])\<rparr>"

text \<open>
  The attributes of a \<^verbatim>\<open>Space\<close> object: the matrix, and references to the two
  lists, the two dicts and the list of operations.
\<close>

record space =
  cooccurrence_matrix :: matrix
  row2id :: ref
  id2row :: ref
  column2id :: ref
  id2column :: ref
  operations :: ref

subsection \<open>Helpers of composes.utils.space_utils\<close>

text \<open>
  Modelled from the spec: \<^verbatim>\<open>list2dict\<close> builds the index mapping of a list of
  strings, each string mapped to its position.
\<close>

definition list2dict :: "string list \<Rightarrow> pydict" where
  "list2dict lst = fold (\<lambda>(idx, word) d. AList.update word idx d) (enumerate 0 lst) []"

text \<open>
  Modelled from the spec: \<^verbatim>\<open>assert_dict_match_list\<close> fails with a MappingMismatch
  error if the index mapping is not the exact inverse of the string list.
\<close>

definition assert_dict_match_list :: "pydict \<Rightarrow> string list \<Rightarrow> error + unit" where
  "assert_dict_match_list dct lst =
     (if length dct = length lst \<and>
         list_all (\<lambda>(k, v). v < length lst \<and> lst ! v = k) dct
      then Inr () else Inl MappingMismatch)"

text \<open>
  Modelled from the spec: \<^verbatim>\<open>assert_shape_consistent\<close> fails with a ShapeMismatch
  error if the row or column count of the matrix disagrees with the sizes of the mappings.
  The column mappings may both be empty whatever the column count (the feature
  identities are dropped after a dimensionality reduction).
\<close>

definition assert_shape_consistent ::
  "matrix \<Rightarrow> string list \<Rightarrow> string list \<Rightarrow> pydict \<Rightarrow> pydict \<Rightarrow> error + unit" where
  "assert_shape_consistent mat id2row' id2column' row2id' column2id' =
     (if nrows mat = length id2row' \<and> nrows mat = length row2id' \<and>
         ((id2column' = [] \<and> column2id' = []) \<or>
          (ncols mat = length id2column' \<and> ncols mat = length column2id'))
      then Inr () else Inl ShapeMismatch)"

text \<open>
  Modelled from the spec: \<^verbatim>\<open>add_items_to_dict(dict_, list_)\<close> is the merge that
  gives each string of the list the next free index, and raises a DuplicateKey error
  when a string is already a key of the dict.
\<close>

fun add_items_to_dict :: "pydict \<Rightarrow> string list \<Rightarrow> error + pydict" where
  "add_items_to_dict dct [] = Inr dct"
| "add_items_to_dict dct (el # lst) =
     (if map_of dct el \<noteq> None then Inl DuplicateKey
      else add_items_to_dict (dct @ [(el, length dct)]) lst)"

subsection \<open>Matrix operations the space uses\<close>

text \<open>Modelled from the spec: the matrix capability's \<^verbatim>\<open>vstack\<close>.\<close>

definition vstack_matrix :: "matrix \<Rightarrow> matrix \<Rightarrow> error + matrix" where
  "vstack_matrix a b =
     (if ncols a \<noteq> ncols b then Inl ShapeMismatch
      else Inr \<lparr>ncols = ncols a, entries = entries a @ entries b\<rparr>)"

text \<open>Modelled from the spec: indexing by one row index, \<^verbatim>\<open>m[i, :]\<close>.\<close>

definition row_at :: "matrix \<Rightarrow> nat \<Rightarrow> error + matrix" where
  "row_at m i =
     (if i < nrows m then Inr \<lparr>ncols = ncols m, entries = [entries m ! i]\<rparr>
      else Inl IndexError)"

text \<open>Modelled from the spec: indexing by a list of row indices, \<^verbatim>\<open>m[row_ids, :]\<close>.\<close>

definition rows_at :: "matrix \<Rightarrow> nat list \<Rightarrow> error + matrix" where
  "rows_at m row_ids =
     (if list_all (\<lambda>i. i < nrows m) row_ids
      then Inr \<lparr>ncols = ncols m, entries = map (\<lambda>i. entries m ! i) row_ids\<rparr>
      else Inl IndexError)"

text \<open>Modelled from the spec: indexing one entry, \<^verbatim>\<open>m[i, j]\<close>.\<close>

definition entry_at :: "matrix \<Rightarrow> nat \<Rightarrow> nat \<Rightarrow> error + real" where
  "entry_at m i j =
     (if i < nrows m \<and> j < length (entries m ! i) then Inr (entries m ! i ! j)
      else Inl IndexError)"

text \<open>
  Modelled from the spec: \<^verbatim>\<open>m.sum(axis)\<close>, the sums of the rows (axis 1) or of the
  columns (axis 0).
\<close>

definition matrix_sum :: "matrix \<Rightarrow> nat \<Rightarrow> real list" where
  "matrix_sum m axis =
     (if axis = 1 then map sum_list (entries m)
      else map (\<lambda>j. sum_list (col m j)) [0..<ncols m])"

text \<open>
  Modelled from the spec: \<^verbatim>\<open>m.sorted_permutation(norm_function, axis)\<close> is the
  permutation that sorts the values of \<^verbatim>\<open>norm_function(axis)\<close> in descending order;
  among equal values the lower index comes first.
\<close>

definition sorted_permutation :: "matrix \<Rightarrow> (matrix \<Rightarrow> nat \<Rightarrow> real list) \<Rightarrow> nat \<Rightarrow> nat list" where
  "sorted_permutation m norm_function axis =
     (let vals = norm_function m axis
      in sort_key (\<lambda>i. - (vals ! i)) [0..<length vals])"

subsection \<open>Subscripting a Python list\<close>

text \<open>
  \<^verbatim>\<open>id2row\<close> and \<^verbatim>\<open>id2column\<close> are Python lists: \<^verbatim>\<open>apply\<close> stores
  \<^verbatim>\<open>list(self.id2column)\<close> or \<^verbatim>\<open>[]\<close>, and \<^verbatim>\<open>vstack\<close> concatenates
  two of them with \<^verbatim>\<open>+\<close> and compares two with \<^verbatim>\<open>!=\<close>. A Python list
  subscripted by a list of indices, \<^verbatim>\<open>lst[indices]\<close>, raises
  \<^verbatim>\<open>TypeError: list indices must be integers, not list\<close>: the subscript of a list
  must be an integer or a slice.
\<close>

definition list_getitem_list :: "string list \<Rightarrow> int list \<Rightarrow> error + string list" where
  "list_getitem_list lst indices = Inl (TypeError ''list indices must be integers, not %s'' [Str ''list''])"

subsection \<open>The Space class\<close>

text \<open>
  \<^verbatim>\<open>Space.__init__(self, matrix_, id2row, id2column, row2id=None, column2id=None,
  **kwargs)\<close>. The lists and dicts are passed by reference and stored as they are; only
  a dict built by \<^verbatim>\<open>list2dict\<close> and the default empty list of operations are new
  objects. The last argument is \<^verbatim>\<open>kwargs["operations"]\<close> when the key is given.
\<close>

definition Space_init ::
  "heap \<Rightarrow> matrix \<Rightarrow> ref \<Rightarrow> ref \<Rightarrow> ref option \<Rightarrow> ref option \<Rightarrow> ref option
     \<Rightarrow> error + space \<times> heap" where
  "Space_init h mat id2row' id2column' row2id' column2id' operations' =
     (case (case row2id' of
              None \<Rightarrow> Inr (new_dict h (list2dict (str_lists h id2row')))
            | Some r \<Rightarrow>
                (case assert_dict_match_list (dicts h r) (str_lists h id2row') of
                   Inl e \<Rightarrow> Inl e
                 | Inr _ \<Rightarrow> Inr (r, h))) of
        Inl e \<Rightarrow> Inl e
      | Inr (row2id1, h1) \<Rightarrow>
          (case (case column2id' of
                   None \<Rightarrow> Inr (new_dict h1 (list2dict (str_lists h1 id2column')))
                 | Some c \<Rightarrow>
                     (case assert_dict_match_list (dicts h1 c) (str_lists h1 id2column') of
                        Inl e \<Rightarrow> Inl e
                      | Inr _ \<Rightarrow> Inr (c, h1))) of
             Inl e \<Rightarrow> Inl e
           | Inr (column2id1, h2) \<Rightarrow>
               (case assert_shape_consistent mat (str_lists h2 id2row') (str_lists h2 id2column')
                       (dicts h2 row2id1) (dicts h2 column2id1) of
                  Inl e \<Rightarrow> Inl e
                | Inr _ \<Rightarrow>
                    (let (ops, h3) = (case operations' of
                                        Some r \<Rightarrow> (r, h2)
                                      | None \<Rightarrow> new_op_list h2 [])
                     in Inr (\<lparr>cooccurrence_matrix = mat, row2id = row2id1, id2row = id2row',
                               column2id = column2id1, id2column = id2column',
                               operations = ops\<rparr>, h3)))))"

text \<open>
  \<^verbatim>\<open>Space.apply(self, transformation)\<close>. \<^verbatim>\<open>list(x)\<close> and \<^verbatim>\<open>x.copy()\<close>
  make new objects; the operation is appended to the copy of the list of operations.
\<close>

definition Space_apply :: "heap \<Rightarrow> space \<Rightarrow> transformation pyarg \<Rightarrow> error + space \<times> heap" where
  "Space_apply h self transformation' =
     (case assert_is_instance transformation' of
        Inl e \<Rightarrow> Inl e
      | Inr transformation \<Rightarrow>
          (let op = create_operation transformation in
           case op_apply op (cooccurrence_matrix self) of
             Inl e \<Rightarrow> Inl e
           | Inr new_matrix \<Rightarrow>
               (let (new_operations, h1) = new_op_list h (op_lists h (operations self));
                    h2 = append_op h1 new_operations op;
                    (id2row', h3) = new_str_list h2 (str_lists h2 (id2row self));
                    (row2id', h4) = new_dict h3 (dicts h3 (row2id self))
                in case (case transformation of
                           DimensionalityReduction _ \<Rightarrow>
                             (let (id2column', h5) = new_str_list h4 [];
                                  (column2id', h6) = new_dict h5 []
                              in Inr (id2column', column2id', h6))
                         | FeatureSelection _ selected_columns \<Rightarrow>
                             (case list_getitem_list (str_lists h4 (id2column self))
                                     selected_columns of
                                Inl e \<Rightarrow> Inl e
                              | Inr selected \<Rightarrow>
                                  (let (id2column', h5) = new_str_list h4 selected;
                                       (column2id', h6) =
                                          new_dict h5 (list2dict (str_lists h5 id2column'))
                                   in Inr (id2column', column2id', h6)))
                         | Weighting _ \<Rightarrow>
                             (let (id2column', h5) =
                                     new_str_list h4 (str_lists h4 (id2column self));
                                  (column2id', h6) = new_dict h5 (dicts h5 (column2id self))
                              in Inr (id2column', column2id', h6))) of
                     Inl e \<Rightarrow> Inl e
                   | Inr (id2column', column2id', h6) \<Rightarrow>
                       Space_init h6 new_matrix id2row' id2column'
                         (Some row2id') (Some column2id') (Some new_operations))))"

text \<open>\<^verbatim>\<open>Space.get_row(self, word)\<close>: \<open>Inr None\<close> is the returned \<^verbatim>\<open>None\<close>.\<close>

definition get_row :: "heap \<Rightarrow> space \<Rightarrow> string \<Rightarrow> error + matrix option" where
  "get_row h self word =
     (case map_of (dicts h (row2id self)) word of
        None \<Rightarrow> Inr None
      | Some i \<Rightarrow>
          (case row_at (cooccurrence_matrix self) i of
             Inl e \<Rightarrow> Inl e
           | Inr v \<Rightarrow> Inr (Some v)))"

text \<open>
  \<^verbatim>\<open>Space.get_rows(self, words)\<close>: the loop that collects \<^verbatim>\<open>row_ids\<close>, then the
  indexing of the matrix by the collected list.
\<close>

fun get_rows_loop :: "pydict \<Rightarrow> string list \<Rightarrow> nat list \<Rightarrow> error + nat list" where
  "get_rows_loop row2id' [] row_ids = Inr row_ids"
| "get_rows_loop row2id' (word # words) row_ids =
     (case map_of row2id' word of
        None \<Rightarrow> Inl (ValueError ''Word not found in space rows: %s'' [Str word])
      | Some i \<Rightarrow> get_rows_loop row2id' words (row_ids @ [i]))"

definition get_rows :: "heap \<Rightarrow> space \<Rightarrow> string list \<Rightarrow> error + matrix" where
  "get_rows h self words =
     (case get_rows_loop (dicts h (row2id self)) words [] of
        Inl e \<Rightarrow> Inl e
      | Inr row_ids \<Rightarrow> rows_at (cooccurrence_matrix self) row_ids)"

text \<open>
  \<^verbatim>\<open>Space.get_sim(self, word1, word2, similarity, space2=None)\<close>. The result is the
  list of the warnings emitted, and the value returned or the error raised.
\<close>

datatype warning = Warning string "fmt_arg list"

definition get_sim ::
  "heap \<Rightarrow> space \<Rightarrow> string \<Rightarrow> string \<Rightarrow> similarity pyarg \<Rightarrow> space option
     \<Rightarrow> warning list \<times> (error + real)" where
  "get_sim h self word1 word2 similarity' space2 =
     (case assert_is_instance similarity' of
        Inl e \<Rightarrow> ([], Inl e)
      | Inr similarity \<Rightarrow>
          (case get_row h self word1 of
             Inl e \<Rightarrow> ([], Inl e)
           | Inr v1 \<Rightarrow>
               (case (case space2 of
                        None \<Rightarrow> get_row h self word2
                      | Some s2 \<Rightarrow> get_row h s2 word2) of
                  Inl e \<Rightarrow> ([], Inl e)
                | Inr v2 \<Rightarrow>
                    (case v1 of
                       None \<Rightarrow>
                         ([Warning ''Row string %s not found, returning 0.0'' [Str word1]], Inr 0)
                     | Some r1 \<Rightarrow>
                         (case v2 of
                            None \<Rightarrow>
                              ([Warning ''Row string %s not found, returning 0.0'' [Str word2]],
                               Inr 0)
                          | Some r2 \<Rightarrow> ([], sim_get_sim similarity r1 r2))))))"

text \<open>
  \<^verbatim>\<open>Space.get_neighbours(self, word, no_neighbours, similarity,
  neighbour_space=None)\<close>. The loop runs over \<^verbatim>\<open>range(no_neighbours)\<close>, which is
  empty for a negative bound.
\<close>

fun get_neighbours_loop ::
  "string list \<Rightarrow> matrix \<Rightarrow> nat list \<Rightarrow> nat list \<Rightarrow> (string \<times> real) list
     \<Rightarrow> error + (string \<times> real) list" where
  "get_neighbours_loop id2row' sims_to_matrix sorted_perm [] result = Inr result"
| "get_neighbours_loop id2row' sims_to_matrix sorted_perm (count # counts) result =
     (if \<not> count < length sorted_perm then Inl IndexError
      else (let i = sorted_perm ! count in
            if \<not> i < length id2row' then Inl IndexError
            else (case entry_at sims_to_matrix i 0 of
                    Inl e \<Rightarrow> Inl e
                  | Inr score \<Rightarrow>
                      get_neighbours_loop id2row' sims_to_matrix sorted_perm counts
                        (result @ [(id2row' ! i, score)]))))"

definition get_neighbours ::
  "heap \<Rightarrow> space \<Rightarrow> string \<Rightarrow> int \<Rightarrow> similarity pyarg \<Rightarrow> space option
     \<Rightarrow> error + (string \<times> real) list" where
  "get_neighbours h self word no_neighbours similarity' neighbour_space =
     (case assert_is_instance similarity' of
        Inl e \<Rightarrow> Inl e
      | Inr similarity \<Rightarrow>
          (case get_row h self word of
             Inl e \<Rightarrow> Inl e
           | Inr None \<Rightarrow> Inr []
           | Inr (Some vector) \<Rightarrow>
               (case (case neighbour_space of
                        None \<Rightarrow>
                          (case sim_get_sims_to_matrix similarity vector
                                  (cooccurrence_matrix self) of
                             Inl e \<Rightarrow> Inl e
                           | Inr sims \<Rightarrow> Inr (str_lists h (id2row self), sims))
                      | Some ns \<Rightarrow>
                          (case sim_get_sims_to_matrix similarity vector
                                  (cooccurrence_matrix ns) of
                             Inl e \<Rightarrow> Inl e
                           | Inr sims \<Rightarrow> Inr (str_lists h (id2row ns), sims))) of
                  Inl e \<Rightarrow> Inl e
                | Inr (id2row', sims_to_matrix) \<Rightarrow>
                    (let sorted_perm = sorted_permutation sims_to_matrix matrix_sum 1;
                         no_neighbours1 = min no_neighbours (int (length id2row'))
                     in get_neighbours_loop id2row' sims_to_matrix sorted_perm
                          [0..<nat no_neighbours1] []))))"

text \<open>
  \<^verbatim>\<open>Space.vstack(self, space_)\<close>. The copy of \<^verbatim>\<open>self.row2id\<close> is the object
  \<^verbatim>\<open>add_items_to_dict\<close> changes and returns.
\<close>

definition vstack :: "heap \<Rightarrow> space \<Rightarrow> space \<Rightarrow> error + space \<times> heap" where
  "vstack h self space' =
     (if ncols (cooccurrence_matrix self) \<noteq> ncols (cooccurrence_matrix space') then
        Inl (ValueError ''Inconsistent shapes: %s, %s''
               [Num (ncols (cooccurrence_matrix self)), Num (ncols (cooccurrence_matrix space'))])
      else if str_lists h (id2column self) \<noteq> str_lists h (id2column space') then
        Inl (ValueError ''Identical columns required'' [])
      else
        (let (new_row2id, h1) = new_dict h (dicts h (row2id self)) in
         case add_items_to_dict (dicts h1 new_row2id) (str_lists h1 (id2row space')) of
           Inl e \<Rightarrow> Inl e
         | Inr merged \<Rightarrow>
             (let h2 = h1\<lparr>dicts := (dicts h1)(new_row2id := merged)\<rparr>;
                  (new_id2row, h3) =
                     new_str_list h2 (str_lists h2 (id2row self) @ str_lists h2 (id2row space'))
              in case vstack_matrix (cooccurrence_matrix self) (cooccurrence_matrix space') of
                   Inl e \<Rightarrow> Inl e
                 | Inr new_mat \<Rightarrow>
                     (let (id2column', h4) = new_str_list h3 (str_lists h3 (id2column self));
                          (column2id', h5) = new_dict h4 (dicts h4 (column2id self));
                          (operations', h6) = new_op_list h5 []
                      in Space_init h6 new_mat new_id2row id2column'
                           (Some new_row2id) (Some column2id') (Some operations')))))"

text \<open>
  The names an attribute lookup on a \<^verbatim>\<open>Space\<close> object finds: the attributes
  \<^verbatim>\<open>__init__\<close> assigns, and the methods and properties of the class.
  \<^verbatim>\<open>assert_shape_consistent\<close> is a function of the module
  \<^verbatim>\<open>composes.utils.space_utils\<close>, not an attribute of the class.
\<close>

definition Space_attributes :: "string list" where
  "Space_attributes =
     [''_cooccurrence_matrix'', ''_row2id'', ''_id2row'', ''_column2id'', ''_id2column'',
      ''_operations'', ''__init__'', ''apply'', ''get_sim'', ''get_neighbours'', ''vstack'',
      ''get_row'', ''get_rows'', ''set_cooccurrence_matrix'', ''get_cooccurrence_matrix'',
      ''cooccurrence_matrix'', ''get_row2id'', ''row2id'', ''get_id2row'', ''id2row'',
      ''get_column2id'', ''column2id'', ''get_id2column'', ''id2column'', ''get_operations'',
      ''operations'']"

definition Space_getattr :: "string \<Rightarrow> error + unit" where
  "Space_getattr name =
     (if name \<in> set Space_attributes then Inr () else Inl (AttributeError name))"

text \<open>
  \<^verbatim>\<open>Space.set_cooccurrence_matrix(self, matrix_)\<close>, returning the object as the
  assignment leaves it. The second statement looks \<^verbatim>\<open>assert_shape_consistent\<close> up
  on \<^verbatim>\<open>self\<close> and calls what it finds with the matrix and the four mappings; the
  lookup is the part of the statement that has a model, since no attribute of that name
  exists for the call to reach. The assignment follows the second statement.
\<close>

definition set_cooccurrence_matrix :: "space \<Rightarrow> matrix pyarg \<Rightarrow> error + space" where
  "set_cooccurrence_matrix self matrix' =
     (case assert_is_instance matrix' of
        Inl e \<Rightarrow> Inl e
      | Inr mat \<Rightarrow>
          (case Space_getattr ''assert_shape_consistent'' of
             Inl e \<Rightarrow> Inl e
           | Inr _ \<Rightarrow> Inr (self\<lparr>cooccurrence_matrix := mat\<rparr>)))"

subsection \<open>Valid spaces\<close>

text \<open>
  What \<^verbatim>\<open>Space.__init__\<close> leaves true of a space in a store: the matrix is
  rectangular, each dict is the exact inverse of its list, the row count is the number of
  row strings, the column count is the number of column strings unless the column mappings
  are empty, and the references are in use.
\<close>

definition inverse_of :: "pydict \<Rightarrow> string list \<Rightarrow> bool" where
  "inverse_of dct lst =
     (distinct (map fst dct) \<and> length dct = length lst \<and>
      list_all (\<lambda>(k, v). v < length lst \<and> lst ! v = k) dct)"

definition valid_space :: "heap \<Rightarrow> space \<Rightarrow> bool" where
  "valid_space h s =
     (matrix_ok (cooccurrence_matrix s) \<and>
      inverse_of (dicts h (row2id s)) (str_lists h (id2row s)) \<and>
      inverse_of (dicts h (column2id s)) (str_lists h (id2column s)) \<and>
      nrows (cooccurrence_matrix s) = length (str_lists h (id2row s)) \<and>
      (str_lists h (id2column s) = [] \<or>
       ncols (cooccurrence_matrix s) = length (str_lists h (id2column s))) \<and>
      row2id s < fresh h \<and> id2row s < fresh h \<and> column2id s < fresh h \<and>
      id2column s < fresh h \<and> operations s < fresh h)"

subsection \<open>The store after a weighting\<close>

text \<open>
  The store \<^verbatim>\<open>apply\<close> leaves when it returns for a weighting: the five objects it
  creates, in the order of creation (the copy of the list of operations with the new
  operation appended, the copies of \<^verbatim>\<open>id2row\<close>, \<^verbatim>\<open>row2id\<close>,
  \<^verbatim>\<open>id2column\<close> and \<^verbatim>\<open>column2id\<close>), and every other object as it was.
\<close>

definition apply_heap :: "heap \<Rightarrow> space \<Rightarrow> operation \<Rightarrow> heap" where
  "apply_heap h self op =
     h\<lparr>op_lists := (op_lists h)(fresh h := op_lists h (operations self) @ [op]),
       str_lists := (str_lists h)
         (Suc (fresh h) := str_lists h (id2row self),
          Suc (Suc (Suc (fresh h))) := str_lists h (id2column self)),
       dicts := (dicts h)
         (Suc (Suc (fresh h)) := dicts h (row2id self),
          Suc (Suc (Suc (Suc (fresh h)))) := dicts h (column2id self)),
       fresh := Suc (Suc (Suc (Suc (Suc (fresh h)))))\<rparr>"

subsection \<open>The store after a stacking\<close>

text \<open>
  The store \<^verbatim>\<open>vstack\<close> leaves when it returns: the five objects it creates, in the
  order of creation (the merged copy of \<^verbatim>\<open>row2id\<close>, the concatenated list of rows,
  the copies of the column list and dict, the empty list of operations), and every other
  object as it was.
\<close>

definition vstack_heap :: "heap \<Rightarrow> space \<Rightarrow> space \<Rightarrow> pydict \<Rightarrow> heap" where
  "vstack_heap h s1 s2 merged =
     h\<lparr>str_lists := (str_lists h)
         (Suc (fresh h) := str_lists h (id2row s1) @ str_lists h (id2row s2),
          Suc (Suc (fresh h)) := str_lists h (id2column s1)),
       dicts := (dicts h)
         (fresh h := merged, Suc (Suc (Suc (fresh h))) := dicts h (column2id s1)),
       op_lists := (op_lists h)(Suc (Suc (Suc (Suc (fresh h)))) := []),
       fresh := Suc (Suc (Suc (Suc (Suc (fresh h)))))\<rparr>"

section \<open>The specification's words for the composition\<close>

text \<open>
  The specification describes the result of the composition as
  \<open>arg1_mat \<cdot> A\<^sup>T + arg2_mat \<cdot> B\<^sup>T\<close>, where with an intercept \<open>arg2_mat\<close> is first
  padded with an appended constant column of ones. These two definitions follow those
  words; the theorems compare them with \<open>FullAdditive_compose\<close>.
\<close>

definition append_ones_column :: "matrix \<Rightarrow> matrix" where
  "append_ones_column m = \<lparr>ncols = ncols m + 1, entries = map (\<lambda>r. r @ [1]) (entries m)\<rparr>"

definition sum_of_products :: "matrix \<Rightarrow> matrix \<Rightarrow> matrix \<Rightarrow> matrix \<Rightarrow> error + matrix" where
  "sum_of_products x a y b =
     (case multiply x a of
        Inl e \<Rightarrow> Inl e
      | Inr p \<Rightarrow> (case multiply y b of Inl e \<Rightarrow> Inl e | Inr q \<Rightarrow> add p q))"

text \<open>
  The space a query looks into (the second word of \<^verbatim>\<open>get_sim\<close>, the neighbours of
  \<^verbatim>\<open>get_neighbours\<close>): this space, or the other space when one is given.
\<close>

definition lookup_space :: "space \<Rightarrow> space option \<Rightarrow> space" where
  "lookup_space self space2 = (case space2 of None \<Rightarrow> self | Some s2 \<Rightarrow> s2)"

section \<open>Example objects\<close>

text \<open>
  A model with an intercept: \<open>A\<^sup>T\<close> is the identity, and the last row of \<open>B\<^sup>T\<close>
  is the intercept \<open>(5, 7)\<close>.
\<close>

definition A0_t :: matrix where "A0_t = \<lparr>ncols = 2, entries = [[1, 0], [0, 1]]\<rparr>"
definition B0_t :: matrix where "B0_t = \<lparr>ncols = 2, entries = [[1, 0], [0, 1], [5, 7]]\<rparr>"
definition model0 :: full_additive where
  "model0 = \<lparr>mat_a_t = Some A0_t, mat_b_t = Some B0_t, has_intercept = True,
             regression_learner = None\<rparr>"

text \<open>
  A learner that fits an intercept and returns a fixed matrix of four coefficient rows,
  and a model that owns it and was built while its flag was still false.
\<close>

definition learner0 :: regression_learner where
  "learner0 = \<lparr>learner_has_intercept = True,
               learner_train = (\<lambda>x y. Inr \<lparr>ncols = 1, entries = [[1], [2], [3], [4]]\<rparr>)\<rparr>"

definition untrained0 :: full_additive where
  "untrained0 = \<lparr>mat_a_t = None, mat_b_t = None, has_intercept = False,
                 regression_learner = Some learner0\<rparr>"

text \<open>
  A store with the lists and dicts of three spaces over the columns \<open>f1\<close>, \<open>f2\<close>:
  \<open>space0\<close> with the rows \<open>dog\<close>, \<open>cat\<close>, \<open>car\<close>; \<open>space_overlap\<close>
  with the rows \<open>bus\<close>, \<open>cat\<close> (it shares \<open>cat\<close> with \<open>space0\<close>);
  \<open>space_disjoint\<close> with the rows \<open>bus\<close>, \<open>van\<close>. And a similarity that scores two vectors by their dot product.
\<close>

definition heap0 :: heap where
  "heap0 = \<lparr>str_lists = (\<lambda>r. [])
              (0 := [''dog'', ''cat'', ''car''], 1 := [''f1'', ''f2''],
               5 := [''bus'', ''cat''], 7 := [''f1'', ''f2''],
               10 := [''bus'', ''van''], 12 := [''f1'', ''f2'']),
            dicts = (\<lambda>r. [])
              (2 := [(''dog'', 0), (''cat'', 1), (''car'', 2)], 3 := [(''f1'', 0), (''f2'', 1)],
               6 := [(''bus'', 0), (''cat'', 1)], 8 := [(''f1'', 0), (''f2'', 1)],
               11 := [(''bus'', 0), (''van'', 1)], 13 := [(''f1'', 0), (''f2'', 1)]),
            op_lists = (\<lambda>r. []),
            fresh = 15\<rparr>"

definition space0 :: space where
  "space0 = \<lparr>cooccurrence_matrix = \<lparr>ncols = 2, entries = [[1, 2], [3, 4], [0, 5]]\<rparr>,
             row2id = 2, id2row = 0, column2id = 3, id2column = 1, operations = 4\<rparr>"

definition space_overlap :: space where
  "space_overlap = \<lparr>cooccurrence_matrix = \<lparr>ncols = 2, entries = [[7, 8], [3, 4]]\<rparr>,
             row2id = 6, id2row = 5, column2id = 8, id2column = 7, operations = 9\<rparr>"

definition space_disjoint :: space where
  "space_disjoint = \<lparr>cooccurrence_matrix = \<lparr>ncols = 2, entries = [[7, 8], [9, 6]]\<rparr>,
             row2id = 11, id2row = 10, column2id = 13, id2column = 12, operations = 14\<rparr>"

definition similarity0 :: similarity where
  "similarity0 =
     \<lparr>sim_get_sim = (\<lambda>v1 v2. Inr (dot (hd (entries v1)) (hd (entries v2)))),
      sim_get_sims_to_matrix =
        (\<lambda>v m. Inr \<lparr>ncols = 1, entries = map (\<lambda>r. [dot (hd (entries v)) r]) (entries m)\<rparr>)\<rparr>"

text \<open>
  Two operations: a weighting that doubles every entry, and a feature selection that
  keeps the first column.
\<close>

definition double0 :: operation where
  "double0 = Operation (\<lambda>m. Inr (m\<lparr>entries := map (map (\<lambda>x. 2 * x)) (entries m)\<rparr>))"

definition keep_first_column :: operation where
  "keep_first_column = Operation (\<lambda>m. Inr \<lparr>ncols = 1, entries = map (take 1) (entries m)\<rparr>)"

section \<open>The additive composition model: theorems\<close>

text \<open>The padding of the code is the padding of the specification.\<close>

lemma padd_matrix_ones: "padd_matrix m 1 = append_ones_column m"
  by (simp add: padd_matrix_def append_ones_column_def)

text \<open>
  The sum of two products of fitting shapes, entry by entry: the entry \<open>(i, j)\<close> is the
  sum of two dot products.
\<close>

lemma map2_add_maps: "map2 (+) (map f js) (map g js) = map (\<lambda>j. f j + g j) js"
  by (induction js) simp_all

lemma map2_map2_add:
  "length xs = length ys \<Longrightarrow>
   map2 (map2 (+)) (map (\<lambda>r. map (f r) js) xs) (map (\<lambda>s. map (g s) js) ys)
     = map2 (\<lambda>r s. map (\<lambda>j. f r j + g s j) js) xs ys"
  by (induction xs ys rule: list_induct2) (simp_all add: map2_add_maps)

lemma sum_of_products_Inr:
  assumes "ncols x = nrows a" "ncols y = nrows b" "ncols a = ncols b" "nrows x = nrows y"
  shows "sum_of_products x a y b =
     Inr \<lparr>ncols = ncols a,
          entries = map2 (\<lambda>r s. map (\<lambda>j. dot r (col a j) + dot s (col b j)) [0..<ncols a])
                      (entries x) (entries y)\<rparr>"
proof -
  have len: "length (entries x) = length (entries y)"
    using assms(4) by (simp add: nrows_def)
  show ?thesis
    using assms map2_map2_add [OF len, of "\<lambda>r j. dot r (col a j)" "[0..<ncols a]" "\<lambda>s j. dot s (col b j)"]
    by (simp add: sum_of_products_def multiply_def add_def shape_def nrows_def)
qed

text \<open>
  Under an intercept the last coefficient of a column of \<open>B\<^sup>T\<close> is added as it is:
  it is multiplied by the appended one.
\<close>

lemma dot_append_one: "length r = length c \<Longrightarrow> dot (r @ [1]) (c @ [b]) = dot r c + b"
  by (simp add: dot_def)

text \<open>
  Claim C1. For a model whose \<open>A\<^sup>T\<close> and \<open>B\<^sup>T\<close> are set, \<^verbatim>\<open>_compose\<close> returns
  \<open>arg1_mat \<cdot> A\<^sup>T + arg2_mat \<cdot> B\<^sup>T\<close> when \<^verbatim>\<open>has_intercept\<close> is false, and
  \<open>arg1_mat \<cdot> A\<^sup>T + (arg2_mat with an appended column of ones) \<cdot> B\<^sup>T\<close> when it is
  true, for every pair of argument matrices (failing as that expression fails when the
  shapes do not fit). When the shapes fit it returns the matrix whose entry \<open>(i, j)\<close> is
  the dot product of row \<open>i\<close> of \<open>arg1_mat\<close> with column \<open>j\<close> of \<open>A\<^sup>T\<close> plus that of
  row \<open>i\<close> of \<open>arg2_mat\<close> (with a final 1 under an intercept) with column \<open>j\<close> of
  \<open>B\<^sup>T\<close>.
\<close>

theorem FullAdditive_compose_correct:
  assumes "mat_a_t self = Some A_t" and "mat_b_t self = Some B_t"
  shows "FullAdditive_compose self arg1_mat arg2_mat =
           sum_of_products arg1_mat A_t
             (if has_intercept self then append_ones_column arg2_mat else arg2_mat) B_t
         \<and> (ncols arg1_mat = nrows A_t \<and>
            ncols arg2_mat + (if has_intercept self then 1 else 0) = nrows B_t \<and>
            ncols A_t = ncols B_t \<and> nrows arg1_mat = nrows arg2_mat \<longrightarrow>
            FullAdditive_compose self arg1_mat arg2_mat =
              Inr \<lparr>ncols = ncols A_t,
                   entries =
                     map2 (\<lambda>r s. map (\<lambda>j. dot r (col A_t j) +
                                           dot (if has_intercept self then s @ [1] else s)
                                             (col B_t j)) [0..<ncols A_t])
                       (entries arg1_mat) (entries arg2_mat)\<rparr>)"
proof -
  let ?arg2 = "if has_intercept self then append_ones_column arg2_mat else arg2_mat"
  have eq: "FullAdditive_compose self arg1_mat arg2_mat =
              sum_of_products arg1_mat A_t ?arg2 B_t"
    using assms
    by (simp add: FullAdditive_compose_def sum_of_products_def padd_matrix_ones
             split: sum.splits)
  have "sum_of_products arg1_mat A_t ?arg2 B_t =
          Inr \<lparr>ncols = ncols A_t,
               entries =
                 map2 (\<lambda>r s. map (\<lambda>j. dot r (col A_t j) +
                                       dot (if has_intercept self then s @ [1] else s)
                                         (col B_t j)) [0..<ncols A_t])
                   (entries arg1_mat) (entries arg2_mat)\<rparr>"
    if c: "ncols arg1_mat = nrows A_t"
          "ncols arg2_mat + (if has_intercept self then 1 else 0) = nrows B_t"
          "ncols A_t = ncols B_t" "nrows arg1_mat = nrows arg2_mat"
  proof (cases "has_intercept self")
    case True
    have "sum_of_products arg1_mat A_t (append_ones_column arg2_mat) B_t =
            Inr \<lparr>ncols = ncols A_t,
                 entries =
                   map2 (\<lambda>r s. map (\<lambda>j. dot r (col A_t j) + dot s (col B_t j)) [0..<ncols A_t])
                     (entries arg1_mat) (entries (append_ones_column arg2_mat))\<rparr>"
      using c True
      by (intro sum_of_products_Inr) (simp_all add: append_ones_column_def nrows_def)
    then show ?thesis
      using True by (simp add: append_ones_column_def zip_map2 split_def)
  next
    case False
    then show ?thesis
      using c sum_of_products_Inr [of arg1_mat A_t arg2_mat B_t] by simp
  qed
  with eq show ?thesis by simp
qed

theorem FullAdditive_compose_correct_witness:
  "mat_a_t model0 = Some A0_t \<and> mat_b_t model0 = Some B0_t \<and>
   FullAdditive_compose model0 \<lparr>ncols = 2, entries = [[1, 0]]\<rparr> \<lparr>ncols = 2, entries = [[2, 3]]\<rparr>
     = Inr \<lparr>ncols = 2, entries = [[8, 10]]\<rparr>"
  using FullAdditive_compose_correct [of model0 A0_t B0_t
          "\<lparr>ncols = 2, entries = [[1, 0]]\<rparr>" "\<lparr>ncols = 2, entries = [[2, 3]]\<rparr>",
          THEN conjunct2]
  by (simp add: model0_def A0_t_def B0_t_def nrows_def dot_def col_def upt_rec)

text \<open>
  Claim C9. For a model that owns a learner, \<^verbatim>\<open>_train\<close> sets
  \<^verbatim>\<open>has_intercept\<close> to what the learner reports now (whatever the flag was),
  regresses the horizontal stack of \<open>arg1_mat\<close> and \<open>arg2_mat\<close> against
  \<open>phrase_mat\<close>, and splits the coefficient matrix the learner returns at the row index
  \<open>ncols arg1_mat\<close>: the rows before it become \<open>A\<^sup>T\<close>, the remaining rows \<open>B\<^sup>T\<close>, and
  no row is lost.
\<close>

theorem FullAdditive_train_correct:
  assumes "regression_learner self = Some learner"
      and "hstack arg1_mat arg2_mat = Inr design"
      and "learner_train learner design phrase_mat = Inr result"
  shows "FullAdditive_train self arg1_mat arg2_mat phrase_mat =
           Inr (self\<lparr>has_intercept := learner_has_intercept learner,
                     mat_a_t := Some (result\<lparr>entries := take (ncols arg1_mat) (entries result)\<rparr>),
                     mat_b_t := Some (result\<lparr>entries := drop (ncols arg1_mat) (entries result)\<rparr>)\<rparr>)
         \<and> design = \<lparr>ncols = ncols arg1_mat + ncols arg2_mat,
                      entries = map2 (@) (entries arg1_mat) (entries arg2_mat)\<rparr>
         \<and> take (ncols arg1_mat) (entries result) @ drop (ncols arg1_mat) (entries result)
             = entries result"
  using assms
  by (auto simp add: FullAdditive_train_def rows_slice_def rows_from_def hstack_def
           split: if_splits)

theorem FullAdditive_train_correct_witness:
  "regression_learner untrained0 = Some learner0 \<and>
   hstack \<lparr>ncols = 2, entries = [[1, 0]]\<rparr> \<lparr>ncols = 1, entries = [[5]]\<rparr>
     = Inr \<lparr>ncols = 3, entries = [[1, 0, 5]]\<rparr> \<and>
   learner_train learner0 \<lparr>ncols = 3, entries = [[1, 0, 5]]\<rparr> \<lparr>ncols = 1, entries = [[7]]\<rparr>
     = Inr \<lparr>ncols = 1, entries = [[1], [2], [3], [4]]\<rparr> \<and>
   FullAdditive_train untrained0 \<lparr>ncols = 2, entries = [[1, 0]]\<rparr> \<lparr>ncols = 1, entries = [[5]]\<rparr>
       \<lparr>ncols = 1, entries = [[7]]\<rparr>
     = Inr \<lparr>mat_a_t = Some \<lparr>ncols = 1, entries = [[1], [2]]\<rparr>,
            mat_b_t = Some \<lparr>ncols = 1, entries = [[3], [4]]\<rparr>,
            has_intercept = True, regression_learner = Some learner0\<rparr>"
  using FullAdditive_train_correct [of untrained0 learner0
          "\<lparr>ncols = 2, entries = [[1, 0]]\<rparr>" "\<lparr>ncols = 1, entries = [[5]]\<rparr>"
          "\<lparr>ncols = 3, entries = [[1, 0, 5]]\<rparr>" "\<lparr>ncols = 1, entries = [[7]]\<rparr>"
          "\<lparr>ncols = 1, entries = [[1], [2], [3], [4]]\<rparr>", THEN conjunct1]
  by (simp add: untrained0_def learner0_def hstack_def nrows_def)

text \<open>
  Claim C10. The constructor leaves the learner-based path only when both \<^verbatim>\<open>"A"\<close>
  and \<^verbatim>\<open>"B"\<close> are supplied (only then is there a model without a learner). If exactly
  one of them is supplied, the constructor builds the model it builds without that
  argument: it does not raise, the matrix is ignored, the learner is the default learner
  (or the one supplied as \<^verbatim>\<open>"learner"\<close>), and \<^verbatim>\<open>has_intercept\<close> is what that
  learner reports.
\<close>

theorem FullAdditive_init_one_matrix:
  "(\<forall>m. FullAdditive_init dflt kwargs = Inr m \<and> regression_learner m = None
        \<longrightarrow> kwargs ''A'' \<noteq> None \<and> kwargs ''B'' \<noteq> None)
   \<and> ((kwargs ''A'' = None) \<noteq> (kwargs ''B'' = None) \<longrightarrow>
        FullAdditive_init dflt kwargs = FullAdditive_init dflt (kwargs(''A'' := None, ''B'' := None))
        \<and> (kwargs ''learner'' = None \<longrightarrow>
             FullAdditive_init dflt kwargs =
               Inr \<lparr>mat_a_t = None, mat_b_t = None,
                    has_intercept = learner_has_intercept dflt,
                    regression_learner = Some dflt\<rparr>)
        \<and> (\<forall>l. kwargs ''learner'' = Some (LearnerV l) \<longrightarrow>
             FullAdditive_init dflt kwargs =
               Inr \<lparr>mat_a_t = None, mat_b_t = None,
                    has_intercept = learner_has_intercept l,
                    regression_learner = Some l\<rparr>))"
  by (auto simp add: FullAdditive_init_def Let_def to_compatible_matrix_types_def
           split: pyval.splits option.splits if_splits)

theorem FullAdditive_init_one_matrix_witness:
  "FullAdditive_init learner0 [''A'' \<mapsto> MatrixV \<lparr>ncols = 1, entries = [[1]]\<rparr>]
     = Inr \<lparr>mat_a_t = None, mat_b_t = None, has_intercept = True,
            regression_learner = Some learner0\<rparr>"
proof -
  let ?kwargs = "[''A'' \<mapsto> MatrixV \<lparr>ncols = 1, entries = [[1]]\<rparr>]"
  have one: "(?kwargs ''A'' = None) \<noteq> (?kwargs ''B'' = None)" by simp
  have no_learner: "?kwargs ''learner'' = None" by simp
  from FullAdditive_init_one_matrix [of learner0 ?kwargs] one no_learner
  have "FullAdditive_init learner0 ?kwargs =
          Inr \<lparr>mat_a_t = None, mat_b_t = None,
               has_intercept = learner_has_intercept learner0,
               regression_learner = Some learner0\<rparr>"
    by blast
  then show ?thesis by (simp add: learner0_def)
qed

section \<open>Semantic spaces: theorems\<close>

subsection \<open>A dict that is the exact inverse of a list\<close>

lemma inverse_of_Some_D:
  assumes "inverse_of dct lst" and "map_of dct w = Some i"
  shows "i < length lst \<and> lst ! i = w"
proof -
  from assms(2) have "(w, i) \<in> set dct" by (rule map_of_SomeD)
  with assms(1) show ?thesis
    by (auto simp add: inverse_of_def list_all_iff)
qed

lemma inverse_of_values:
  assumes "inverse_of dct lst"
  shows "snd ` set dct = {0..<length lst}"
proof -
  have keys: "distinct (map fst dct)" and len: "length dct = length lst"
    and items: "\<And>k v. (k, v) \<in> set dct \<Longrightarrow> v < length lst \<and> lst ! v = k"
    using assms by (auto simp add: inverse_of_def list_all_iff)
  have "inj_on snd (set dct)"
  proof (rule inj_onI)
    fix p q assume pq: "p \<in> set dct" "q \<in> set dct" "snd p = snd q"
    obtain k v where p: "p = (k, v)" by (cases p)
    obtain k' v' where q: "q = (k', v')" by (cases q)
    from pq p q have "lst ! v = k" "lst ! v' = k'" "v = v'"
      using items [of k v] items [of k' v'] by simp_all
    with p q show "p = q" by simp
  qed
  moreover have "distinct dct"
    using keys by (rule distinct_map [THEN iffD1, THEN conjunct1])
  ultimately have "distinct (map snd dct)"
    by (simp add: distinct_map)
  then have "card (snd ` set dct) = length lst"
    using len distinct_card [of "map snd dct"] by simp
  moreover have "snd ` set dct \<subseteq> {0..<length lst}"
    using items by auto
  ultimately show ?thesis
    by (intro card_subset_eq) simp_all
qed

lemma inverse_of_lookup:
  assumes "inverse_of dct lst"
  shows "map_of dct w = Some i \<longleftrightarrow> i < length lst \<and> lst ! i = w"
proof
  assume "map_of dct w = Some i"
  with assms show "i < length lst \<and> lst ! i = w" by (rule inverse_of_Some_D)
next
  assume r: "i < length lst \<and> lst ! i = w"
  then have "i \<in> snd ` set dct"
    using inverse_of_values [OF assms] by simp
  then obtain k where k: "(k, i) \<in> set dct" by force
  with assms have "lst ! i = k"
    by (auto simp add: inverse_of_def list_all_iff)
  with r k have "(w, i) \<in> set dct" by simp
  moreover have "distinct (map fst dct)"
    using assms by (simp add: inverse_of_def)
  ultimately show "map_of dct w = Some i" by simp
qed

lemma inverse_of_distinct:
  assumes "inverse_of dct lst"
  shows "distinct lst"
proof (rule distinct_conv_nth [THEN iffD2], intro allI impI)
  fix i j assume "i < length lst" "j < length lst" "i \<noteq> j"
  show "lst ! i \<noteq> lst ! j"
  proof
    assume "lst ! i = lst ! j"
    with \<open>i < length lst\<close> \<open>j < length lst\<close>
    have "map_of dct (lst ! i) = Some i" "map_of dct (lst ! i) = Some j"
      using inverse_of_lookup [OF assms] by simp_all
    with \<open>i \<noteq> j\<close> show False by simp
  qed
qed

lemma inverse_of_None:
  assumes "inverse_of dct lst"
  shows "map_of dct w = None \<longleftrightarrow> w \<notin> set lst"
proof -
  have "(\<exists>i. map_of dct w = Some i) \<longleftrightarrow> w \<in> set lst"
    using inverse_of_lookup [OF assms] by (auto simp add: in_set_conv_nth)
  then show ?thesis by (cases "map_of dct w") auto
qed

lemma valid_space_row_index:
  assumes "valid_space h s" and "map_of (dicts h (row2id s)) w = Some i"
  shows "i < nrows (cooccurrence_matrix s)"
  using assms inverse_of_Some_D [of "dicts h (row2id s)" "str_lists h (id2row s)" w i]
  by (simp add: valid_space_def)

lemma get_row_None: "map_of (dicts h (row2id s)) w = None \<Longrightarrow> get_row h s w = Inr None"
  by (simp add: get_row_def)

lemma get_row_Some:
  assumes "valid_space h s" and "map_of (dicts h (row2id s)) w = Some i"
  shows "get_row h s w =
           Inr (Some \<lparr>ncols = ncols (cooccurrence_matrix s),
                      entries = [entries (cooccurrence_matrix s) ! i]\<rparr>)"
  using assms valid_space_row_index [OF assms]
  by (simp add: get_row_def row_at_def)

lemma valid_space0: "valid_space heap0 space0"
  by (simp add: valid_space_def inverse_of_def matrix_ok_def nrows_def heap0_def space0_def)

subsection \<open>What the constructor establishes\<close>

lemma set_update_subset: "set (AList.update k v al) \<subseteq> insert (k, v) (set al)"
  by (induction al) auto

lemma list2dict_fold_keys:
  "distinct (map fst d) \<Longrightarrow>
   distinct (map fst (fold (\<lambda>(idx, word) d. AList.update word idx d) (enumerate n lst) d)) \<and>
   set (map fst (fold (\<lambda>(idx, word) d. AList.update word idx d) (enumerate n lst) d))
     = set (map fst d) \<union> set lst"
proof (induction lst arbitrary: n d)
  case Nil
  then show ?case by simp
next
  case (Cons w ws)
  have "distinct (map fst (AList.update w n d))"
    using Cons.prems by (rule distinct_update)
  from Cons.IH [OF this, of "Suc n"] show ?case
    using dom_update [of w n d] by auto
qed

lemma list2dict_fold_items:
  "set (fold (\<lambda>(idx, word) d. AList.update word idx d) (enumerate n lst) d)
     \<subseteq> set d \<union> {(lst ! j, n + j) | j. j < length lst}"
proof (induction lst arbitrary: n d)
  case Nil
  then show ?case by simp
next
  case (Cons w ws)
  have "set (fold (\<lambda>(idx, word) d. AList.update word idx d) (enumerate (Suc n) ws)
              (AList.update w n d))
          \<subseteq> set (AList.update w n d) \<union> {(ws ! j, Suc n + j) | j. j < length ws}"
    by (rule Cons.IH)
  also have "\<dots> \<subseteq> set d \<union> {((w # ws) ! j, n + j) | j. j < length (w # ws)}"
  proof -
    have "(w, n) \<in> {((w # ws) ! j, n + j) | j. j < length (w # ws)}"
      by (rule CollectI, rule exI [of _ 0]) simp
    moreover have "{(ws ! j, Suc n + j) | j. j < length ws}
                     \<subseteq> {((w # ws) ! j, n + j) | j. j < length (w # ws)}"
    proof
      fix p assume "p \<in> {(ws ! j, Suc n + j) | j. j < length ws}"
      then obtain j where "p = (ws ! j, Suc n + j)" "j < length ws" by blast
      then have "p = ((w # ws) ! Suc j, n + Suc j) \<and> Suc j < length (w # ws)" by simp
      then show "p \<in> {((w # ws) ! j, n + j) | j. j < length (w # ws)}" by blast
    qed
    ultimately show ?thesis
      using set_update_subset [of w n d] by blast
  qed
  finally show ?case by simp
qed

lemma list2dict_inverse:
  assumes "length (list2dict lst) = length lst"
  shows "inverse_of (list2dict lst) lst"
proof -
  have "distinct (map fst (list2dict lst))"
    using list2dict_fold_keys [of "[]" 0 lst] by (simp add: list2dict_def)
  moreover have "list_all (\<lambda>(k, v). v < length lst \<and> lst ! v = k) (list2dict lst)"
    using list2dict_fold_items [of 0 lst "[]"]
    by (auto simp add: list2dict_def list_all_iff)
  ultimately show ?thesis
    using assms by (simp add: inverse_of_def)
qed

lemma list2dict_distinct:
  assumes "distinct lst"
  shows "length (list2dict lst) = length lst"
proof -
  have "distinct (map fst (list2dict lst))" "set (map fst (list2dict lst)) = set lst"
    using list2dict_fold_keys [of "[]" 0 lst] by (simp_all add: list2dict_def)
  then have "length (map fst (list2dict lst)) = card (set lst)"
    using distinct_card [of "map fst (list2dict lst)"] by simp
  then show ?thesis
    using assms by (simp add: distinct_card)
qed

lemma match_inverse:
  "distinct (map fst dct) \<Longrightarrow> assert_dict_match_list dct lst = Inr u \<Longrightarrow> inverse_of dct lst"
  by (simp add: assert_dict_match_list_def inverse_of_def split: if_splits)

text \<open>
  The constructor establishes validity: whenever it returns, for a rectangular matrix and
  lists and dicts of the store (a dict has no key twice), the space it returns is valid
  in the store it returns.
\<close>

lemma Space_init_valid:
  assumes init: "Space_init h mat i j r c ops = Inr (s, h')"
      and ok: "matrix_ok mat"
      and refs: "i < fresh h" "j < fresh h"
      and r: "case r of None \<Rightarrow> True | Some a \<Rightarrow> a < fresh h \<and> distinct (map fst (dicts h a))"
      and c: "case c of None \<Rightarrow> True | Some a \<Rightarrow> a < fresh h \<and> distinct (map fst (dicts h a))"
      and ops: "case ops of None \<Rightarrow> True | Some a \<Rightarrow> a < fresh h"
  shows "valid_space h' s"
proof -
  obtain r1 h1 where s1:
    "(case r of
        None \<Rightarrow> Inr (new_dict h (list2dict (str_lists h i)))
      | Some a \<Rightarrow> (case assert_dict_match_list (dicts h a) (str_lists h i) of
                     Inl e \<Rightarrow> Inl e | Inr _ \<Rightarrow> Inr (a, h))) = Inr (r1, h1)"
    using init by (auto simp add: Space_init_def split: sum.splits)
  obtain c1 h2 where s2:
    "(case c of
        None \<Rightarrow> Inr (new_dict h1 (list2dict (str_lists h1 j)))
      | Some a \<Rightarrow> (case assert_dict_match_list (dicts h1 a) (str_lists h1 j) of
                     Inl e \<Rightarrow> Inl e | Inr _ \<Rightarrow> Inr (a, h1))) = Inr (c1, h2)"
    using init s1 by (auto simp add: Space_init_def split: sum.splits)
  have shape_ok: "assert_shape_consistent mat (str_lists h2 i) (str_lists h2 j)
                    (dicts h2 r1) (dicts h2 c1) = Inr ()"
    using init s1 s2 by (auto simp add: Space_init_def split: sum.splits)
  obtain o1 where s3:
    "(case ops of Some a \<Rightarrow> (a, h2) | None \<Rightarrow> new_op_list h2 []) = (o1, h')"
    and s: "s = \<lparr>cooccurrence_matrix = mat, row2id = r1, id2row = i, column2id = c1,
                  id2column = j, operations = o1\<rparr>"
    using init s1 s2 shape_ok by (auto simp add: Space_init_def split: prod.splits)
  have h1: "str_lists h1 = str_lists h" "op_lists h1 = op_lists h" "fresh h \<le> fresh h1"
    "r1 < fresh h1" "\<And>a. a < fresh h \<Longrightarrow> dicts h1 a = dicts h a"
    "distinct (map fst (dicts h1 r1))"
    "length (dicts h1 r1) = length (str_lists h i) \<Longrightarrow> inverse_of (dicts h1 r1) (str_lists h i)"
    using s1 r list2dict_fold_keys [of "[]" 0 "str_lists h i"] list2dict_inverse [of "str_lists h i"]
    by (auto simp add: new_dict_def list2dict_def match_inverse split: option.splits sum.splits)
  have h2: "str_lists h2 = str_lists h" "op_lists h2 = op_lists h" "fresh h1 \<le> fresh h2"
    "c1 < fresh h2" "dicts h2 r1 = dicts h1 r1"
    "length (dicts h2 c1) = length (str_lists h j) \<Longrightarrow> inverse_of (dicts h2 c1) (str_lists h j)"
    using s2 c h1 list2dict_inverse [of "str_lists h j"]
    by (auto simp add: new_dict_def match_inverse split: option.splits sum.splits)
  have h3: "str_lists h' = str_lists h" "dicts h' = dicts h2" "fresh h2 \<le> fresh h'"
    "o1 < fresh h'"
    using s3 ops h1(3) h2(1,3) by (auto simp add: new_op_list_def split: option.splits)
  have lens: "nrows mat = length (str_lists h i)" "length (dicts h1 r1) = length (str_lists h i)"
    "(str_lists h j = [] \<and> dicts h2 c1 = []) \<or>
     (ncols mat = length (str_lists h j) \<and> length (dicts h2 c1) = length (str_lists h j))"
    using shape_ok h1 h2
    by (auto simp add: assert_shape_consistent_def split: if_splits)
  have "inverse_of (dicts h2 c1) (str_lists h j)"
    using lens(3) h2(6) by auto
  then show ?thesis
    using ok refs h1 h2 h3 lens
    by (auto simp add: valid_space_def s)
qed


text \<open>
  The example space is what the constructor builds from the two lists and the matrix,
  given no dicts and no operations.
\<close>

lemma Space_init_space0:
  "Space_init
     \<lparr>str_lists = (\<lambda>r. [])(0 := [''dog'', ''cat'', ''car''], 1 := [''f1'', ''f2'']),
      dicts = (\<lambda>r. []), op_lists = (\<lambda>r. []), fresh = 2\<rparr>
     \<lparr>ncols = 2, entries = [[1, 2], [3, 4], [0, 5]]\<rparr> 0 1 None None None =
   Inr (space0,
        \<lparr>str_lists = (\<lambda>r. [])(0 := [''dog'', ''cat'', ''car''], 1 := [''f1'', ''f2'']),
         dicts = (\<lambda>r. [])(2 := [(''dog'', 0), (''cat'', 1), (''car'', 2)],
                            3 := [(''f1'', 0), (''f2'', 1)]),
         op_lists = (\<lambda>r. [])(4 := []), fresh = 5\<rparr>)"
  by (simp add: Space_init_def new_dict_def new_op_list_def list2dict_def enumerate_eq_zip
        upt_rec assert_shape_consistent_def nrows_def space0_def eval_nat_numeral)

subsection \<open>Similarity of two words\<close>

text \<open>
  Claim C5. On valid spaces \<^verbatim>\<open>get_sim\<close> does not raise on a missing word. If
  \<open>word1\<close> is absent from this space's \<^verbatim>\<open>row2id\<close> it emits one warning (naming
  \<open>word1\<close>) and returns 0.0; if \<open>word1\<close> is present and \<open>word2\<close> is absent from the
  \<^verbatim>\<open>row2id\<close> of the lookup space (this space, or \<^verbatim>\<open>space2\<close> when given) it emits
  one warning (naming \<open>word2\<close>) and returns 0.0; otherwise it emits nothing and returns
  what the similarity's \<^verbatim>\<open>get_sim\<close> gives on the two row vectors.
\<close>

theorem get_sim_soft_miss:
  assumes "valid_space h self" and "valid_space h (lookup_space self space2)"
  shows "(map_of (dicts h (row2id self)) word1 = None \<longrightarrow>
            get_sim h self word1 word2 (Instance sim) space2 =
              ([Warning ''Row string %s not found, returning 0.0'' [Str word1]], Inr 0))
       \<and> (map_of (dicts h (row2id self)) word1 \<noteq> None \<and>
          map_of (dicts h (row2id (lookup_space self space2))) word2 = None \<longrightarrow>
            get_sim h self word1 word2 (Instance sim) space2 =
              ([Warning ''Row string %s not found, returning 0.0'' [Str word2]], Inr 0))
       \<and> (\<forall>i j. map_of (dicts h (row2id self)) word1 = Some i \<and>
                map_of (dicts h (row2id (lookup_space self space2))) word2 = Some j \<longrightarrow>
            get_sim h self word1 word2 (Instance sim) space2 =
              ([], sim_get_sim sim
                     \<lparr>ncols = ncols (cooccurrence_matrix self),
                      entries = [entries (cooccurrence_matrix self) ! i]\<rparr>
                     \<lparr>ncols = ncols (cooccurrence_matrix (lookup_space self space2)),
                      entries = [entries (cooccurrence_matrix (lookup_space self space2)) ! j]\<rparr>))"
proof -
  let ?other = "lookup_space self space2"
  have second: "(case space2 of None \<Rightarrow> get_row h self word2 | Some s2 \<Rightarrow> get_row h s2 word2)
                  = get_row h ?other word2"
    by (simp add: lookup_space_def split: option.splits)
  have r1: "get_row h self word1 = Inr None" if "map_of (dicts h (row2id self)) word1 = None"
    using that by (rule get_row_None)
  have r1': "get_row h self word1 =
               Inr (Some \<lparr>ncols = ncols (cooccurrence_matrix self),
                          entries = [entries (cooccurrence_matrix self) ! i]\<rparr>)"
    if "map_of (dicts h (row2id self)) word1 = Some i" for i
    using assms(1) that by (rule get_row_Some)
  have r2: "\<exists>v. get_row h ?other word2 = Inr v"
    using get_row_None [of h ?other word2] get_row_Some [OF assms(2), of word2]
    by (cases "map_of (dicts h (row2id ?other)) word2") auto
  have r2n: "get_row h ?other word2 = Inr None"
    if "map_of (dicts h (row2id ?other)) word2 = None"
    using that by (rule get_row_None)
  have r2': "get_row h ?other word2 =
               Inr (Some \<lparr>ncols = ncols (cooccurrence_matrix ?other),
                          entries = [entries (cooccurrence_matrix ?other) ! j]\<rparr>)"
    if "map_of (dicts h (row2id ?other)) word2 = Some j" for j
    using assms(2) that by (rule get_row_Some)
  have a: "get_sim h self word1 word2 (Instance sim) space2 =
              ([Warning ''Row string %s not found, returning 0.0'' [Str word1]], Inr 0)"
    if "map_of (dicts h (row2id self)) word1 = None"
    using r1 [OF that] r2
    by (auto simp add: get_sim_def assert_is_instance_def second)
  have b: "get_sim h self word1 word2 (Instance sim) space2 =
              ([Warning ''Row string %s not found, returning 0.0'' [Str word2]], Inr 0)"
    if "map_of (dicts h (row2id self)) word1 \<noteq> None"
       "map_of (dicts h (row2id ?other)) word2 = None"
    using that(1) r1' r2n [OF that(2)]
    by (auto simp add: get_sim_def assert_is_instance_def second)
  have c: "get_sim h self word1 word2 (Instance sim) space2 =
              ([], sim_get_sim sim
                     \<lparr>ncols = ncols (cooccurrence_matrix self),
                      entries = [entries (cooccurrence_matrix self) ! i]\<rparr>
                     \<lparr>ncols = ncols (cooccurrence_matrix ?other),
                      entries = [entries (cooccurrence_matrix ?other) ! j]\<rparr>)"
    if "map_of (dicts h (row2id self)) word1 = Some i"
       "map_of (dicts h (row2id ?other)) word2 = Some j" for i j
    using r1' [OF that(1)] r2' [OF that(2)]
    by (simp add: get_sim_def assert_is_instance_def second)
  from a b c show ?thesis by blast
qed


theorem get_sim_soft_miss_witness:
  "valid_space heap0 space0 \<and>
   get_sim heap0 space0 ''bird'' ''dog'' (Instance similarity0) None =
     ([Warning ''Row string %s not found, returning 0.0'' [Str ''bird'']], Inr 0) \<and>
   get_sim heap0 space0 ''dog'' ''bird'' (Instance similarity0) (Some space0) =
     ([Warning ''Row string %s not found, returning 0.0'' [Str ''bird'']], Inr 0) \<and>
   get_sim heap0 space0 ''dog'' ''cat'' (Instance similarity0) None = ([], Inr 11)"
proof -
  have v: "valid_space heap0 space0" by (rule valid_space0)
  have l1: "lookup_space space0 None = space0" "lookup_space space0 (Some space0) = space0"
    by (simp_all add: lookup_space_def)
  have d: "dicts heap0 (row2id space0) = [(''dog'', 0), (''cat'', 1), (''car'', 2)]"
    by (simp add: heap0_def space0_def)
  have "get_sim heap0 space0 ''bird'' ''dog'' (Instance similarity0) None =
     ([Warning ''Row string %s not found, returning 0.0'' [Str ''bird'']], Inr 0)"
    using get_sim_soft_miss [of heap0 space0 None "''bird''" "''dog''" similarity0] v
    by (simp add: l1 d)
  moreover have "get_sim heap0 space0 ''dog'' ''bird'' (Instance similarity0) (Some space0) =
     ([Warning ''Row string %s not found, returning 0.0'' [Str ''bird'']], Inr 0)"
    using get_sim_soft_miss [of heap0 space0 "Some space0" "''dog''" "''bird''" similarity0] v
    by (simp add: l1 d)
  moreover have "get_sim heap0 space0 ''dog'' ''cat'' (Instance similarity0) None = ([], Inr 11)"
    using get_sim_soft_miss [of heap0 space0 None "''dog''" "''cat''" similarity0] v
    by (simp add: l1 d) (simp add: space0_def similarity0_def dot_def)
  ultimately show ?thesis using v by simp
qed

subsection \<open>Rows by word\<close>

lemma get_rows_loop_present:
  "list_all (\<lambda>w. map_of dct w \<noteq> None) words \<Longrightarrow>
   get_rows_loop dct words row_ids = Inr (row_ids @ map (\<lambda>w. the (map_of dct w)) words)"
  by (induction words arbitrary: row_ids) auto

lemma get_rows_loop_missing:
  "find (\<lambda>w. map_of dct w = None) words = Some w \<Longrightarrow>
   get_rows_loop dct words row_ids = Inl (ValueError ''Word not found in space rows: %s'' [Str w])"
  by (induction words arbitrary: row_ids) (auto split: if_splits)

text \<open>
  Claim C6. \<^verbatim>\<open>get_row\<close> returns \<^verbatim>\<open>None\<close> (it does not raise) when the word is
  absent from \<^verbatim>\<open>row2id\<close>. \<^verbatim>\<open>get_rows\<close> raises the
  \<^verbatim>\<open>ValueError\<close> "Word not found in space rows" (the specification's KeyNotFound)
  naming the first requested word that is absent, whenever one is; when none is, on a
  valid space, it returns the matrix of the rows of the requested words in request order,
  each the row \<^verbatim>\<open>get_row\<close> returns for that word.
\<close>

theorem get_row_get_rows:
  "(map_of (dicts h (row2id s)) word = None \<longrightarrow> get_row h s word = Inr None)
   \<and> (\<forall>w. find (\<lambda>w. map_of (dicts h (row2id s)) w = None) words = Some w \<longrightarrow>
          get_rows h s words = Inl (ValueError ''Word not found in space rows: %s'' [Str w]))
   \<and> (valid_space h s \<and> find (\<lambda>w. map_of (dicts h (row2id s)) w = None) words = None \<longrightarrow>
          get_rows h s words =
            Inr \<lparr>ncols = ncols (cooccurrence_matrix s),
                 entries = map (\<lambda>w. entries (cooccurrence_matrix s) !
                                       the (map_of (dicts h (row2id s)) w)) words\<rparr>
          \<and> list_all (\<lambda>w. get_row h s w =
                             Inr (Some \<lparr>ncols = ncols (cooccurrence_matrix s),
                                        entries = [entries (cooccurrence_matrix s) !
                                                     the (map_of (dicts h (row2id s)) w)]\<rparr>))
              words)"
proof -
  let ?d = "dicts h (row2id s)" and ?m = "cooccurrence_matrix s"
  have a: "get_row h s word = Inr None" if "map_of ?d word = None"
    using that by (rule get_row_None)
  have b: "get_rows h s words = Inl (ValueError ''Word not found in space rows: %s'' [Str w])"
    if "find (\<lambda>w. map_of ?d w = None) words = Some w" for w
    using get_rows_loop_missing [OF that, of "[]"] by (simp add: get_rows_def)
  have c: "get_rows h s words =
             Inr \<lparr>ncols = ncols ?m, entries = map (\<lambda>w. entries ?m ! the (map_of ?d w)) words\<rparr>
           \<and> list_all (\<lambda>w. get_row h s w =
                             Inr (Some \<lparr>ncols = ncols ?m,
                                        entries = [entries ?m ! the (map_of ?d w)]\<rparr>)) words"
    if v: "valid_space h s" and f: "find (\<lambda>w. map_of ?d w = None) words = None"
  proof -
    from f have present: "\<And>w. w \<in> set words \<Longrightarrow> \<exists>i. map_of ?d w = Some i"
      by (auto simp add: find_None_iff)
    then have all: "list_all (\<lambda>w. map_of ?d w \<noteq> None) words"
      by (auto simp add: list_all_iff)
    have range: "list_all (\<lambda>i. i < nrows ?m) (map (\<lambda>w. the (map_of ?d w)) words)"
      using present valid_space_row_index [OF v] by (fastforce simp add: list_all_iff)
    have rows: "get_rows h s words =
             Inr \<lparr>ncols = ncols ?m, entries = map (\<lambda>w. entries ?m ! the (map_of ?d w)) words\<rparr>"
      using get_rows_loop_present [OF all, of "[]"] range
      by (simp add: get_rows_def rows_at_def comp_def)
    have each: "list_all (\<lambda>w. get_row h s w =
                             Inr (Some \<lparr>ncols = ncols ?m,
                                        entries = [entries ?m ! the (map_of ?d w)]\<rparr>)) words"
      using present get_row_Some [OF v] by (fastforce simp add: list_all_iff)
    from rows each show ?thesis by simp
  qed
  from a b c show ?thesis by blast
qed

theorem get_row_get_rows_witness:
  "get_row heap0 space0 ''bird'' = Inr None \<and>
   get_rows heap0 space0 [''car'', ''bird'', ''dog'', ''fish''] =
     Inl (ValueError ''Word not found in space rows: %s'' [Str ''bird'']) \<and>
   valid_space heap0 space0 \<and>
   get_rows heap0 space0 [''car'', ''dog'', ''car''] =
     Inr \<lparr>ncols = 2, entries = [[0, 5], [1, 2], [0, 5]]\<rparr>"
proof -
  have v: "valid_space heap0 space0" by (rule valid_space0)
  have d: "dicts heap0 (row2id space0) = [(''dog'', 0), (''cat'', 1), (''car'', 2)]"
    by (simp add: heap0_def space0_def)
  have m: "cooccurrence_matrix space0 = \<lparr>ncols = 2, entries = [[1, 2], [3, 4], [0, 5]]\<rparr>"
    by (simp add: space0_def)
  have "get_row heap0 space0 ''bird'' = Inr None"
    using get_row_get_rows [of heap0 space0 "''bird''" "[]"] by (simp add: d)
  moreover have "get_rows heap0 space0 [''car'', ''bird'', ''dog'', ''fish''] =
     Inl (ValueError ''Word not found in space rows: %s'' [Str ''bird''])"
    using get_row_get_rows [of heap0 space0 "''bird''" "[''car'', ''bird'', ''dog'', ''fish'']"]
    by (simp add: d)
  moreover have "get_rows heap0 space0 [''car'', ''dog'', ''car''] =
     Inr \<lparr>ncols = 2, entries = [[0, 5], [1, 2], [0, 5]]\<rparr>"
    using get_row_get_rows [of heap0 space0 "''bird''" "[''car'', ''dog'', ''car'']"] v
    by (simp add: d m)
  ultimately show ?thesis using v by simp
qed

subsection \<open>Neighbours of a word\<close>

lemma get_neighbours_loop_map:
  assumes "list_all (\<lambda>c. c < length perm) counts"
      and "list_all (\<lambda>i. i < length id2row' \<and> i < nrows sims \<and> 0 < length (entries sims ! i)) perm"
  shows "get_neighbours_loop id2row' sims perm counts result =
           Inr (result @ map (\<lambda>c. (id2row' ! (perm ! c), entries sims ! (perm ! c) ! 0)) counts)"
  using assms(1)
proof (induction counts arbitrary: result)
  case Nil
  then show ?case by simp
next
  case (Cons c counts)
  from Cons.prems have c: "c < length perm" and rest: "list_all (\<lambda>c. c < length perm) counts"
    by simp_all
  from c assms(2) have i: "perm ! c < length id2row'" "perm ! c < nrows sims"
      "0 < length (entries sims ! (perm ! c))"
    by (simp_all add: list_all_length)
  show ?case
    using c i Cons.IH [OF rest] by (simp add: entry_at_def Let_def)
qed

lemma column_vector_row:
  assumes "matrix_ok sims" and "ncols sims = 1" and "i < nrows sims"
  shows "entries sims ! i = [entries sims ! i ! 0]"
proof -
  from assms have "length (entries sims ! i) = 1"
    by (simp add: matrix_ok_def list_all_length nrows_def)
  then show ?thesis
    by (cases "entries sims ! i") simp_all
qed

lemma column_vector_row_length:
  assumes "matrix_ok sims" and "ncols sims = 1" and "i < nrows sims"
  shows "0 < length (entries sims ! i)"
  using assms by (simp add: matrix_ok_def list_all_length nrows_def)

lemma column_vector_sum:
  assumes "matrix_ok sims" and "ncols sims = 1" and "i < nrows sims"
  shows "matrix_sum sims 1 ! i = entries sims ! i ! 0"
proof -
  have "matrix_sum sims 1 ! i = sum_list (entries sims ! i)"
    using assms(3) by (simp add: matrix_sum_def nrows_def)
  also have "\<dots> = sum_list [entries sims ! i ! 0]"
    using column_vector_row [OF assms] by simp
  finally show ?thesis by simp
qed

lemma sorted_permutation_perm:
  "set (sorted_permutation sims matrix_sum 1) = {0..<nrows sims}"
  "length (sorted_permutation sims matrix_sum 1) = nrows sims"
  "distinct (sorted_permutation sims matrix_sum 1)"
  by (simp_all add: sorted_permutation_def matrix_sum_def nrows_def Let_def)

lemma sorted_permutation_descending:
  "sorted_wrt (\<lambda>i j. matrix_sum sims 1 ! i \<ge> matrix_sum sims 1 ! j)
     (sorted_permutation sims matrix_sum 1)"
proof -
  let ?vals = "matrix_sum sims 1"
  have "sorted (map (\<lambda>i. - (?vals ! i)) (sort_key (\<lambda>i. - (?vals ! i)) [0..<length ?vals]))"
    by (rule sorted_sort_key)
  then show ?thesis
    by (simp add: sorted_permutation_def sorted_map Let_def)
qed

lemma get_neighbours_closed_form:
  assumes v: "valid_space h self" and vq: "valid_space h (lookup_space self neighbour_space)"
      and w: "map_of (dicts h (row2id self)) word = Some i"
      and s: "sim_get_sims_to_matrix sim
                \<lparr>ncols = ncols (cooccurrence_matrix self),
                 entries = [entries (cooccurrence_matrix self) ! i]\<rparr>
                (cooccurrence_matrix (lookup_space self neighbour_space)) = Inr sims"
      and ok: "matrix_ok sims"
      and sh: "shape sims = (nrows (cooccurrence_matrix (lookup_space self neighbour_space)), 1)"
  shows "get_neighbours h self word k (Instance sim) neighbour_space =
           Inr (map (\<lambda>j. (str_lists h (id2row (lookup_space self neighbour_space)) ! j,
                          entries sims ! j ! 0))
                  (take (nat k) (sorted_permutation sims matrix_sum 1)))"
proof -
  let ?q = "lookup_space self neighbour_space"
  let ?ids = "str_lists h (id2row ?q)"
  let ?perm = "sorted_permutation sims matrix_sum 1"
  let ?n = "nat (min k (int (length ?ids)))"
  have n: "nrows sims = length ?ids" and c1: "ncols sims = 1"
    using sh vq by (simp_all add: shape_def valid_space_def)
  have row: "get_row h self word =
               Inr (Some \<lparr>ncols = ncols (cooccurrence_matrix self),
                          entries = [entries (cooccurrence_matrix self) ! i]\<rparr>)"
    using v w by (rule get_row_Some)
  have le: "?n \<le> length ?ids" by simp
  have pset: "set ?perm = {0..<nrows sims}" and plen: "length ?perm = nrows sims"
    by (rule sorted_permutation_perm)+
  have counts: "list_all (\<lambda>c. c < length ?perm) [0..<?n]"
    using n le plen by (auto simp add: list_all_iff)
  have "\<And>j. j \<in> set ?perm \<Longrightarrow> j < nrows sims"
    using pset by simp
  then have perm: "list_all (\<lambda>j. j < length ?ids \<and> j < nrows sims \<and>
                               0 < length (entries sims ! j)) ?perm"
    using n column_vector_row_length [OF ok c1]
    by (simp add: list_all_iff)
  have loop: "get_neighbours_loop ?ids sims ?perm [0..<?n] [] =
                Inr (map (\<lambda>c. (?ids ! (?perm ! c), entries sims ! (?perm ! c) ! 0)) [0..<?n])"
    using get_neighbours_loop_map [OF counts perm, of "[]"] by simp
  have "map (\<lambda>c. ?perm ! c) [0..<?n] = take ?n ?perm"
    using n le plen by (intro nth_equalityI) simp_all
  then have "map (\<lambda>j. (?ids ! j, entries sims ! j ! 0)) (map (\<lambda>c. ?perm ! c) [0..<?n])
               = map (\<lambda>j. (?ids ! j, entries sims ! j ! 0)) (take ?n ?perm)"
    by (rule arg_cong)
  then have "map (\<lambda>c. (?ids ! (?perm ! c), entries sims ! (?perm ! c) ! 0)) [0..<?n]
               = map (\<lambda>j. (?ids ! j, entries sims ! j ! 0)) (take ?n ?perm)"
    by (simp add: comp_def)
  moreover have "take ?n ?perm = take (nat k) ?perm"
    using n plen by (simp add: min_def nat_le_iff)
  ultimately have loop': "get_neighbours_loop ?ids sims ?perm [0..<?n] [] =
                Inr (map (\<lambda>j. (?ids ! j, entries sims ! j ! 0)) (take (nat k) ?perm))"
    using loop by simp
  show ?thesis
    using row s loop'
    by (cases neighbour_space)
       (simp_all add: get_neighbours_def assert_is_instance_def lookup_space_def Let_def)
qed


lemma neighbours_properties:
  fixes k :: int and ids :: "string list" and sims :: matrix
  assumes ok: "matrix_ok sims" and c1: "ncols sims = 1" and n: "nrows sims = length ids"
      and d: "distinct ids"
  defines "result \<equiv> map (\<lambda>j. (ids ! j, entries sims ! j ! 0))
                        (take (nat k) (sorted_permutation sims matrix_sum 1))"
  shows "int (length result) = max 0 (min k (int (length ids)))"
    and "sorted_wrt (\<lambda>p q. snd p \<ge> snd q) result"
    and "distinct (map fst result)"
    and "set result \<subseteq> set (zip ids (col sims 0))"
    and "int (length ids) \<le> k \<Longrightarrow> set result = set (zip ids (col sims 0))"
proof -
  let ?perm = "sorted_permutation sims matrix_sum 1"
  let ?F = "\<lambda>j. (ids ! j, entries sims ! j ! 0)"
  have pset: "set ?perm = {0..<nrows sims}" and plen: "length ?perm = nrows sims"
    and pdist: "distinct ?perm"
    by (rule sorted_permutation_perm)+
  show "int (length result) = max 0 (min k (int (length ids)))"
    using plen n by (simp add: result_def)
  have "sorted_wrt (\<lambda>i j. matrix_sum sims 1 ! i \<ge> matrix_sum sims 1 ! j) ?perm"
    by (rule sorted_permutation_descending)
  then have "sorted_wrt (\<lambda>i j. entries sims ! i ! 0 \<ge> entries sims ! j ! 0) ?perm"
  proof (rule sorted_wrt_mono_rel [rotated])
    fix i j assume "i \<in> set ?perm" "j \<in> set ?perm"
      and le: "matrix_sum sims 1 ! j \<le> matrix_sum sims 1 ! i"
    then have "i < nrows sims" "j < nrows sims" using pset by simp_all
    with le show "entries sims ! j ! 0 \<le> entries sims ! i ! 0"
      using column_vector_sum [OF ok c1] by simp
  qed
  then have "sorted_wrt (\<lambda>i j. entries sims ! i ! 0 \<ge> entries sims ! j ! 0) (take (nat k) ?perm)"
    by (rule sorted_wrt_take)
  then show "sorted_wrt (\<lambda>p q. snd p \<ge> snd q) result"
    by (simp add: result_def sorted_wrt_map)
  have sub: "set (take (nat k) ?perm) \<subseteq> {0..<length ids}"
    using set_take_subset [of "nat k" ?perm] pset n by simp
  have "inj_on (\<lambda>j. ids ! j) {0..<length ids}"
    using d by (auto simp add: inj_on_def nth_eq_iff_index_eq)
  then have "inj_on (\<lambda>j. ids ! j) (set (take (nat k) ?perm))"
    using sub by (rule inj_on_subset)
  moreover have "distinct (take (nat k) ?perm)"
    using pdist by simp
  ultimately show "distinct (map fst result)"
    by (simp add: result_def comp_def distinct_map)
  have zip: "set (zip ids (col sims 0)) = ?F ` {0..<length ids}"
    using n by (auto simp add: set_zip col_def nrows_def image_iff)
  show "set result \<subseteq> set (zip ids (col sims 0))"
    using sub by (auto simp add: result_def zip)
  show "set result = set (zip ids (col sims 0))" if "int (length ids) \<le> k"
  proof -
    from that have "take (nat k) ?perm = ?perm"
      using plen n by simp
    then show ?thesis
      using pset n by (simp add: result_def zip)
  qed
qed

text \<open>
  Claim C3, as amended. If the word is absent from \<^verbatim>\<open>row2id\<close>,
  \<^verbatim>\<open>get_neighbours\<close> returns the empty sequence. Otherwise, on valid spaces and with
  a similarity that returns one score per row of the queried space, it returns a sequence
  of exactly \<open>max 0 (min k rows)\<close> pairs, \<open>rows\<close> the number of rows of the queried
  space, sorted in non-increasing score order; the pairs are rows of the queried space
  with their scores, no row twice, and for \<open>k \<ge> rows\<close> they are all the rows. The
  claim says \<open>min k rows\<close> for every \<open>k\<close>; for a negative \<open>k\<close> the loop over
  \<^verbatim>\<open>range(no_neighbours)\<close> does not run and the result is empty.
\<close>

theorem get_neighbours_result:
  assumes "valid_space h self" and "valid_space h (lookup_space self neighbour_space)"
  shows "(map_of (dicts h (row2id self)) word = None \<longrightarrow>
            get_neighbours h self word k (Instance sim) neighbour_space = Inr [])
       \<and> (\<forall>i sims.
            map_of (dicts h (row2id self)) word = Some i \<and>
            sim_get_sims_to_matrix sim
              \<lparr>ncols = ncols (cooccurrence_matrix self),
               entries = [entries (cooccurrence_matrix self) ! i]\<rparr>
              (cooccurrence_matrix (lookup_space self neighbour_space)) = Inr sims \<and>
            matrix_ok sims \<and>
            shape sims = (nrows (cooccurrence_matrix (lookup_space self neighbour_space)), 1) \<longrightarrow>
            (\<exists>result.
               get_neighbours h self word k (Instance sim) neighbour_space = Inr result \<and>
               int (length result) =
                 max 0 (min k (int (nrows (cooccurrence_matrix (lookup_space self neighbour_space))))) \<and>
               sorted_wrt (\<lambda>p q. snd p \<ge> snd q) result \<and>
               distinct (map fst result) \<and>
               set result \<subseteq>
                 set (zip (str_lists h (id2row (lookup_space self neighbour_space))) (col sims 0)) \<and>
               (int (nrows (cooccurrence_matrix (lookup_space self neighbour_space))) \<le> k \<longrightarrow>
                  set result =
                    set (zip (str_lists h (id2row (lookup_space self neighbour_space)))
                           (col sims 0)))))"
proof (intro conjI impI allI)
  assume "map_of (dicts h (row2id self)) word = None"
  then have "get_row h self word = Inr None" by (rule get_row_None)
  then show "get_neighbours h self word k (Instance sim) neighbour_space = Inr []"
    by (simp add: get_neighbours_def assert_is_instance_def)
next
  let ?q = "lookup_space self neighbour_space"
  let ?ids = "str_lists h (id2row ?q)"
  fix i sims
  assume a: "map_of (dicts h (row2id self)) word = Some i \<and>
            sim_get_sims_to_matrix sim
              \<lparr>ncols = ncols (cooccurrence_matrix self),
               entries = [entries (cooccurrence_matrix self) ! i]\<rparr>
              (cooccurrence_matrix ?q) = Inr sims \<and>
            matrix_ok sims \<and> shape sims = (nrows (cooccurrence_matrix ?q), 1)"
  then have w: "map_of (dicts h (row2id self)) word = Some i"
    and s: "sim_get_sims_to_matrix sim
              \<lparr>ncols = ncols (cooccurrence_matrix self),
               entries = [entries (cooccurrence_matrix self) ! i]\<rparr>
              (cooccurrence_matrix ?q) = Inr sims"
    and ok: "matrix_ok sims" and sh: "shape sims = (nrows (cooccurrence_matrix ?q), 1)"
    by blast+
  have c1: "ncols sims = 1"
    and n: "nrows sims = length ?ids" and rows: "nrows (cooccurrence_matrix ?q) = length ?ids"
    using sh assms(2) by (simp_all add: shape_def valid_space_def)
  have d: "distinct ?ids"
    using assms(2) inverse_of_distinct [of "dicts h (row2id ?q)" ?ids]
    by (simp add: valid_space_def)
  have closed: "get_neighbours h self word k (Instance sim) neighbour_space =
           Inr (map (\<lambda>j. (?ids ! j, entries sims ! j ! 0))
                  (take (nat k) (sorted_permutation sims matrix_sum 1)))"
    by (rule get_neighbours_closed_form [OF assms w s ok sh])
  show "\<exists>result.
               get_neighbours h self word k (Instance sim) neighbour_space = Inr result \<and>
               int (length result) = max 0 (min k (int (nrows (cooccurrence_matrix ?q)))) \<and>
               sorted_wrt (\<lambda>p q. snd p \<ge> snd q) result \<and>
               distinct (map fst result) \<and>
               set result \<subseteq> set (zip ?ids (col sims 0)) \<and>
               (int (nrows (cooccurrence_matrix ?q)) \<le> k \<longrightarrow>
                  set result = set (zip ?ids (col sims 0)))"
    unfolding closed rows
    using neighbours_properties [OF ok c1 n d, of k]
    by (intro exI [of _ "map (\<lambda>j. (?ids ! j, entries sims ! j ! 0))
                  (take (nat k) (sorted_permutation sims matrix_sum 1))"]) simp
qed


lemma space0_dog:
  "map_of (dicts heap0 (row2id space0)) ''dog'' = Some 0"
  "lookup_space space0 None = space0"
  "sim_get_sims_to_matrix similarity0
     \<lparr>ncols = ncols (cooccurrence_matrix space0),
      entries = [entries (cooccurrence_matrix space0) ! 0]\<rparr>
     (cooccurrence_matrix (lookup_space space0 None)) = Inr \<lparr>ncols = 1, entries = [[5], [11], [10]]\<rparr>"
  "matrix_ok \<lparr>ncols = 1, entries = [[5], [11], [10]]\<rparr>"
  "shape \<lparr>ncols = 1, entries = [[5], [11], [10]]\<rparr> =
     (nrows (cooccurrence_matrix (lookup_space space0 None)), 1)"
  by (simp_all add: heap0_def space0_def lookup_space_def similarity0_def dot_def matrix_ok_def
        shape_def nrows_def)

lemma space0_neighbours_of_dog:
  "get_neighbours heap0 space0 ''dog'' k (Instance similarity0) None =
     Inr (take (nat k) [(''cat'', 11), (''car'', 10), (''dog'', 5)])"
proof -
  have v: "valid_space heap0 (lookup_space space0 None)"
    using valid_space0 by (simp add: space0_dog)
  have perm: "sorted_permutation \<lparr>ncols = 1, entries = [[5], [11], [10]]\<rparr> matrix_sum 1 = [1, 2, 0]"
    by (simp add: sorted_permutation_def matrix_sum_def upt_rec)
  have ids: "str_lists heap0 (id2row (lookup_space space0 None)) = [''dog'', ''cat'', ''car'']"
    by (simp add: heap0_def space0_def lookup_space_def)
  show ?thesis
    using get_neighbours_closed_form [OF valid_space0 v space0_dog(1) space0_dog(3-5), of k,
            unfolded perm ids]
    by (simp add: take_map [symmetric])
qed

theorem get_neighbours_result_witness:
  "valid_space heap0 space0 \<and>
   map_of (dicts heap0 (row2id space0)) ''fish'' = None \<and>
   get_neighbours heap0 space0 ''fish'' 2 (Instance similarity0) None = Inr [] \<and>
   map_of (dicts heap0 (row2id space0)) ''dog'' = Some 0 \<and>
   (\<exists>result. get_neighbours heap0 space0 ''dog'' 2 (Instance similarity0) None = Inr result \<and>
      int (length result) = 2 \<and> sorted_wrt (\<lambda>p q. snd p \<ge> snd q) result \<and>
      distinct (map fst result)) \<and>
   get_neighbours heap0 space0 ''dog'' 2 (Instance similarity0) None =
     Inr [(''cat'', 11), (''car'', 10)]"
proof -
  have v: "valid_space heap0 (lookup_space space0 None)"
    using valid_space0 by (simp add: space0_dog)
  have fish: "map_of (dicts heap0 (row2id space0)) ''fish'' = None"
    by (simp add: heap0_def space0_def)
  note res = get_neighbours_result [OF valid_space0 v, of _ 2 similarity0]
  have "get_neighbours heap0 space0 ''fish'' 2 (Instance similarity0) None = Inr []"
    using res [of "''fish''"] fish by blast
  moreover have "\<exists>result. get_neighbours heap0 space0 ''dog'' 2 (Instance similarity0) None = Inr result \<and>
      int (length result) = 2 \<and> sorted_wrt (\<lambda>p q. snd p \<ge> snd q) result \<and>
      distinct (map fst result)"
  proof -
    have "nrows (cooccurrence_matrix (lookup_space space0 None)) = 3"
      by (simp add: space0_def lookup_space_def nrows_def)
    with res [of "''dog''", THEN conjunct2, rule_format, of 0
               "\<lparr>ncols = 1, entries = [[5], [11], [10]]\<rparr>"] space0_dog
    show ?thesis by auto
  qed
  ultimately show ?thesis
    using valid_space0 fish space0_dog(1) space0_neighbours_of_dog [of 2]
    by (simp add: numeral_2_eq_2)
qed

text \<open>
  Claim C3 as stated fails for a negative \<open>k\<close>: the word is present, and the result
  is a sequence, whose length is not \<open>min (-1) 3 = -1\<close>.
\<close>

theorem get_neighbours_negative_counterexample:
  "valid_space heap0 space0 \<and>
   map_of (dicts heap0 (row2id space0)) ''dog'' = Some 0 \<and>
   \<not> (\<exists>result. get_neighbours heap0 space0 ''dog'' (- 1) (Instance similarity0) None = Inr result \<and>
         int (length result) = min (- 1) (int (nrows (cooccurrence_matrix space0))))"
  using valid_space0 space0_dog(1) space0_neighbours_of_dog [of "- 1"]
  by (simp add: space0_def nrows_def)

subsection \<open>Stacking two spaces\<close>

lemma Space_init_Some:
  assumes "assert_dict_match_list (dicts h r) (str_lists h i) = Inr ()"
      and "assert_dict_match_list (dicts h c) (str_lists h j) = Inr ()"
      and "assert_shape_consistent m (str_lists h i) (str_lists h j) (dicts h r) (dicts h c) = Inr ()"
  shows "Space_init h m i j (Some r) (Some c) (Some ops) =
           Inr (\<lparr>cooccurrence_matrix = m, row2id = r, id2row = i, column2id = c,
                 id2column = j, operations = ops\<rparr>, h)"
  using assms by (simp add: Space_init_def)

lemma inverse_of_match: "inverse_of dct lst \<Longrightarrow> assert_dict_match_list dct lst = Inr ()"
  by (simp add: inverse_of_def assert_dict_match_list_def)

lemma inverse_of_keys:
  assumes "inverse_of dct lst"
  shows "set (map fst dct) = set lst"
proof -
  have "w \<in> set (map fst dct) \<longleftrightarrow> w \<in> set lst" for w
    using inverse_of_None [OF assms, of w] by (simp add: map_of_eq_None_iff)
  then show ?thesis by blast
qed

lemma add_items_to_dict_Inr:
  assumes "distinct ws" and "set (map fst dct) \<inter> set ws = {}"
  shows "add_items_to_dict dct ws = Inr (dct @ zip ws [length dct..<length dct + length ws])"
  using assms
proof (induction ws arbitrary: dct)
  case Nil
  then show ?case by simp
next
  case (Cons w ws)
  have none: "map_of dct w = None"
    using Cons.prems(2) by (simp add: map_of_eq_None_iff)
  have "add_items_to_dict (dct @ [(w, length dct)]) ws =
          Inr ((dct @ [(w, length dct)]) @
               zip ws [length (dct @ [(w, length dct)])..<length (dct @ [(w, length dct)]) + length ws])"
    using Cons.prems by (intro Cons.IH) auto
  then show ?case
    using none by (simp del: upt_Suc add: upt_rec [of "length dct"])
qed

lemma add_items_to_dict_Inl:
  assumes "set (map fst dct) \<inter> set ws \<noteq> {}"
  shows "add_items_to_dict dct ws = Inl DuplicateKey"
  using assms
proof (induction ws arbitrary: dct)
  case Nil
  then show ?case by simp
next
  case (Cons w ws)
  show ?case
  proof (cases "map_of dct w")
    case None
    then have "w \<notin> set (map fst dct)" by (simp add: map_of_eq_None_iff)
    with Cons.prems have "set (map fst (dct @ [(w, length dct)])) \<inter> set ws \<noteq> {}"
      by auto
    then have "add_items_to_dict (dct @ [(w, length dct)]) ws = Inl DuplicateKey"
      by (rule Cons.IH)
    with None show ?thesis by simp
  next
    case (Some i)
    then show ?thesis by simp
  qed
qed

lemma inverse_of_append:
  assumes inv: "inverse_of dct lst" and d: "distinct ws" and disj: "set lst \<inter> set ws = {}"
  shows "inverse_of (dct @ zip ws [length dct..<length dct + length ws]) (lst @ ws)"
proof -
  have len: "length dct = length lst" and keys: "distinct (map fst dct)"
    and items: "list_all (\<lambda>(k, v). v < length lst \<and> lst ! v = k) dct"
    using inv by (simp_all add: inverse_of_def)
  have k: "set (map fst dct) = set lst" using inv by (rule inverse_of_keys)
  have "distinct (map fst (dct @ zip ws [length dct..<length dct + length ws]))"
    using keys d disj k by simp
  moreover have "list_all (\<lambda>(k, v). v < length (lst @ ws) \<and> (lst @ ws) ! v = k) dct"
    using items by (auto simp add: list_all_iff nth_append)
  moreover have "list_all (\<lambda>(k, v). v < length (lst @ ws) \<and> (lst @ ws) ! v = k)
                   (zip ws [length dct..<length dct + length ws])"
    using len by (auto simp add: list_all_iff set_zip nth_append)
  ultimately show ?thesis
    using len by (simp add: inverse_of_def)
qed


lemma vstack_unfold:
  assumes v1: "valid_space h s1" and v2: "valid_space h s2"
      and c: "ncols (cooccurrence_matrix s1) = ncols (cooccurrence_matrix s2)"
      and i: "str_lists h (id2column s1) = str_lists h (id2column s2)"
      and m: "add_items_to_dict (dicts h (row2id s1)) (str_lists h (id2row s2)) = Inr merged"
  shows "vstack h s1 s2 =
           Space_init (vstack_heap h s1 s2 merged)
             \<lparr>ncols = ncols (cooccurrence_matrix s1),
              entries = entries (cooccurrence_matrix s1) @ entries (cooccurrence_matrix s2)\<rparr>
             (Suc (fresh h)) (Suc (Suc (fresh h))) (Some (fresh h))
             (Some (Suc (Suc (Suc (fresh h))))) (Some (Suc (Suc (Suc (Suc (fresh h))))))"
proof -
  have refs: "id2row s1 \<noteq> fresh h" "id2row s2 \<noteq> fresh h" "id2column s1 \<noteq> fresh h"
    "column2id s1 \<noteq> fresh h" "row2id s1 \<noteq> fresh h"
    "id2column s1 \<noteq> Suc (fresh h)" "column2id s1 \<noteq> Suc (fresh h)"
    "column2id s1 \<noteq> Suc (Suc (fresh h))"
    using v1 v2 by (auto simp add: valid_space_def)
  show ?thesis
    using c i m refs
    by (simp add: vstack_def vstack_heap_def new_dict_def new_str_list_def new_op_list_def
          vstack_matrix_def Let_def fun_upd_twist)
qed


lemma vstack_success:
  assumes v1: "valid_space h s1" and v2: "valid_space h s2"
      and c: "ncols (cooccurrence_matrix s1) = ncols (cooccurrence_matrix s2)"
      and i: "str_lists h (id2column s1) = str_lists h (id2column s2)"
      and disj: "set (str_lists h (id2row s1)) \<inter> set (str_lists h (id2row s2)) = {}"
  defines "new \<equiv> \<lparr>cooccurrence_matrix =
                      \<lparr>ncols = ncols (cooccurrence_matrix s1),
                       entries = entries (cooccurrence_matrix s1) @ entries (cooccurrence_matrix s2)\<rparr>,
                    row2id = fresh h, id2row = Suc (fresh h),
                    column2id = Suc (Suc (Suc (fresh h))), id2column = Suc (Suc (fresh h)),
                    operations = Suc (Suc (Suc (Suc (fresh h))))\<rparr>"
      and "merged \<equiv> dicts h (row2id s1) @
                      zip (str_lists h (id2row s2))
                        [length (dicts h (row2id s1))..<
                         length (dicts h (row2id s1)) + length (str_lists h (id2row s2))]"
  shows "vstack h s1 s2 = Inr (new, vstack_heap h s1 s2 merged)"
    and "valid_space (vstack_heap h s1 s2 merged) new"
proof -
  let ?h' = "vstack_heap h s1 s2 merged"
  let ?l1 = "str_lists h (id2row s1)" and ?l2 = "str_lists h (id2row s2)"
  let ?m = "\<lparr>ncols = ncols (cooccurrence_matrix s1),
             entries = entries (cooccurrence_matrix s1) @ entries (cooccurrence_matrix s2)\<rparr>"
  have inv1: "inverse_of (dicts h (row2id s1)) ?l1"
    and inv2: "inverse_of (dicts h (row2id s2)) ?l2"
    and invc: "inverse_of (dicts h (column2id s1)) (str_lists h (id2column s1))"
    and rows: "nrows (cooccurrence_matrix s1) = length ?l1"
              "nrows (cooccurrence_matrix s2) = length ?l2"
    and cols: "str_lists h (id2column s1) = [] \<or>
               ncols (cooccurrence_matrix s1) = length (str_lists h (id2column s1))"
    and ok: "matrix_ok (cooccurrence_matrix s1)" "matrix_ok (cooccurrence_matrix s2)"
    using v1 v2 by (simp_all add: valid_space_def)
  have refs: "id2row s1 \<noteq> fresh h" "id2row s2 \<noteq> fresh h" "id2column s1 \<noteq> fresh h"
    "column2id s1 \<noteq> fresh h" "row2id s1 \<noteq> fresh h"
    "id2column s1 \<noteq> Suc (fresh h)" "column2id s1 \<noteq> Suc (fresh h)"
    "column2id s1 \<noteq> Suc (Suc (fresh h))"
    using v1 v2 by (auto simp add: valid_space_def)
  have d2: "distinct ?l2" using inv2 by (rule inverse_of_distinct)
  have keys: "set (map fst (dicts h (row2id s1))) = set ?l1"
    using inv1 by (rule inverse_of_keys)
  have m: "add_items_to_dict (dicts h (row2id s1)) ?l2 = Inr merged"
    unfolding merged_def using d2 disj keys by (intro add_items_to_dict_Inr) simp_all
  have invm: "inverse_of merged (?l1 @ ?l2)"
    unfolding merged_def using inv1 d2 disj by (rule inverse_of_append)
  have look: "dicts ?h' (fresh h) = merged"
    "str_lists ?h' (Suc (fresh h)) = ?l1 @ ?l2"
    "str_lists ?h' (Suc (Suc (fresh h))) = str_lists h (id2column s1)"
    "dicts ?h' (Suc (Suc (Suc (fresh h)))) = dicts h (column2id s1)"
    "op_lists ?h' (Suc (Suc (Suc (Suc (fresh h))))) = []"
    "fresh ?h' = Suc (Suc (Suc (Suc (Suc (fresh h)))))"
    by (simp_all add: vstack_heap_def)
  have lenc: "length (dicts h (column2id s1)) = length (str_lists h (id2column s1))"
    using invc by (simp add: inverse_of_def)
  have lenm: "length merged = length (?l1 @ ?l2)"
    using invm by (simp add: inverse_of_def)
  have shape_ok: "assert_shape_consistent ?m (?l1 @ ?l2) (str_lists h (id2column s1)) merged
                    (dicts h (column2id s1)) = Inr ()"
    using rows cols lenc lenm by (auto simp add: assert_shape_consistent_def nrows_def)
  have "Space_init ?h' ?m (Suc (fresh h)) (Suc (Suc (fresh h))) (Some (fresh h))
          (Some (Suc (Suc (Suc (fresh h))))) (Some (Suc (Suc (Suc (Suc (fresh h)))))) =
        Inr (new, ?h')"
    unfolding new_def
    using inverse_of_match [OF invm] inverse_of_match [OF invc] shape_ok
    by (intro Space_init_Some) (simp_all add: look)
  then show "vstack h s1 s2 = Inr (new, ?h')"
    using vstack_unfold [OF v1 v2 c i m] by simp
  have "matrix_ok ?m"
    using ok c by (simp add: matrix_ok_def)
  then show "valid_space ?h' new"
    using invm invc rows cols
    by (simp add: valid_space_def new_def look nrows_def)
qed

text \<open>
  Claim C4, as amended. For valid spaces \<open>s1\<close> and \<open>s2\<close> with equal column counts,
  \<^verbatim>\<open>vstack\<close> fails with the \<^verbatim>\<open>ValueError\<close> "Identical columns required" (the
  specification's ColumnMismatch) when the \<^verbatim>\<open>id2column\<close> lists differ. When they
  are identical and the two spaces share a row string, it fails with a DuplicateKey
  error. When they are identical and no row string is shared, it returns a valid space
  whose \<^verbatim>\<open>id2row\<close> is the rows of \<open>s1\<close> followed by those of \<open>s2\<close>, whose row
  count is the sum of the two, whose matrix is the rows of the first over the rows of the
  second, and whose list of operations is empty. The claim promises the result for every
  pair with identical columns.
\<close>

theorem vstack_result:
  assumes "valid_space h s1" and "valid_space h s2"
      and "ncols (cooccurrence_matrix s1) = ncols (cooccurrence_matrix s2)"
  shows "(str_lists h (id2column s1) \<noteq> str_lists h (id2column s2) \<longrightarrow>
            vstack h s1 s2 = Inl (ValueError ''Identical columns required'' []))
       \<and> (str_lists h (id2column s1) = str_lists h (id2column s2) \<and>
          set (str_lists h (id2row s1)) \<inter> set (str_lists h (id2row s2)) \<noteq> {} \<longrightarrow>
            vstack h s1 s2 = Inl DuplicateKey)
       \<and> (str_lists h (id2column s1) = str_lists h (id2column s2) \<and>
          set (str_lists h (id2row s1)) \<inter> set (str_lists h (id2row s2)) = {} \<longrightarrow>
            (\<exists>new h'. vstack h s1 s2 = Inr (new, h') \<and>
               str_lists h' (id2row new) = str_lists h (id2row s1) @ str_lists h (id2row s2) \<and>
               nrows (cooccurrence_matrix new) =
                 nrows (cooccurrence_matrix s1) + nrows (cooccurrence_matrix s2) \<and>
               op_lists h' (operations new) = [] \<and>
               str_lists h' (id2column new) = str_lists h (id2column s1) \<and>
               entries (cooccurrence_matrix new) =
                 entries (cooccurrence_matrix s1) @ entries (cooccurrence_matrix s2) \<and>
               valid_space h' new))"
proof (intro conjI impI)
  assume "str_lists h (id2column s1) \<noteq> str_lists h (id2column s2)"
  then show "vstack h s1 s2 = Inl (ValueError ''Identical columns required'' [])"
    using assms(3) by (simp add: vstack_def)
next
  assume a: "str_lists h (id2column s1) = str_lists h (id2column s2) \<and>
          set (str_lists h (id2row s1)) \<inter> set (str_lists h (id2row s2)) \<noteq> {}"
  have "set (map fst (dicts h (row2id s1))) = set (str_lists h (id2row s1))"
    using assms(1) by (intro inverse_of_keys) (simp add: valid_space_def)
  with a have "add_items_to_dict (dicts h (row2id s1)) (str_lists h (id2row s2)) = Inl DuplicateKey"
    by (intro add_items_to_dict_Inl) simp
  moreover have "id2row s2 \<noteq> fresh h" "row2id s1 \<noteq> fresh h"
    using assms(1,2) by (auto simp add: valid_space_def)
  ultimately show "vstack h s1 s2 = Inl DuplicateKey"
    using a assms(3) by (simp add: vstack_def new_dict_def)
next
  assume a: "str_lists h (id2column s1) = str_lists h (id2column s2) \<and>
          set (str_lists h (id2row s1)) \<inter> set (str_lists h (id2row s2)) = {}"
  then have i: "str_lists h (id2column s1) = str_lists h (id2column s2)"
    and disj: "set (str_lists h (id2row s1)) \<inter> set (str_lists h (id2row s2)) = {}"
    by simp_all
  note r = vstack_success [OF assms i disj]
  show "\<exists>new h'. vstack h s1 s2 = Inr (new, h') \<and>
               str_lists h' (id2row new) = str_lists h (id2row s1) @ str_lists h (id2row s2) \<and>
               nrows (cooccurrence_matrix new) =
                 nrows (cooccurrence_matrix s1) + nrows (cooccurrence_matrix s2) \<and>
               op_lists h' (operations new) = [] \<and>
               str_lists h' (id2column new) = str_lists h (id2column s1) \<and>
               entries (cooccurrence_matrix new) =
                 entries (cooccurrence_matrix s1) @ entries (cooccurrence_matrix s2) \<and>
               valid_space h' new"
    by (intro exI conjI, rule r(1), simp_all add: r(2))
       (simp_all add: vstack_heap_def nrows_def)
qed


lemma valid_space_overlap: "valid_space heap0 space_overlap"
  by (simp add: valid_space_def inverse_of_def matrix_ok_def nrows_def heap0_def space_overlap_def)

lemma valid_space_disjoint: "valid_space heap0 space_disjoint"
  by (simp add: valid_space_def inverse_of_def matrix_ok_def nrows_def heap0_def space_disjoint_def)

theorem vstack_result_witness:
  "valid_space heap0 space0 \<and> valid_space heap0 space_disjoint \<and>
   ncols (cooccurrence_matrix space0) = ncols (cooccurrence_matrix space_disjoint) \<and>
   str_lists heap0 (id2column space0) = str_lists heap0 (id2column space_disjoint) \<and>
   set (str_lists heap0 (id2row space0)) \<inter> set (str_lists heap0 (id2row space_disjoint)) = {} \<and>
   (\<exists>new h'. vstack heap0 space0 space_disjoint = Inr (new, h') \<and>
      str_lists h' (id2row new) = [''dog'', ''cat'', ''car'', ''bus'', ''van''] \<and>
      nrows (cooccurrence_matrix new) = 5 \<and>
      op_lists h' (operations new) = [] \<and>
      valid_space h' new)"
proof -
  have c: "ncols (cooccurrence_matrix space0) = ncols (cooccurrence_matrix space_disjoint)"
    by (simp add: space0_def space_disjoint_def)
  have i: "str_lists heap0 (id2column space0) = str_lists heap0 (id2column space_disjoint)"
    by (simp add: heap0_def space0_def space_disjoint_def)
  have r1: "str_lists heap0 (id2row space0) = [''dog'', ''cat'', ''car'']"
    and r2: "str_lists heap0 (id2row space_disjoint) = [''bus'', ''van'']"
    by (simp_all add: heap0_def space0_def space_disjoint_def)
  have n: "nrows (cooccurrence_matrix space0) = 3" "nrows (cooccurrence_matrix space_disjoint) = 2"
    by (simp_all add: nrows_def space0_def space_disjoint_def)
  have disj: "set (str_lists heap0 (id2row space0)) \<inter>
              set (str_lists heap0 (id2row space_disjoint)) = {}"
    by (simp add: r1 r2)
  from vstack_result [OF valid_space0 valid_space_disjoint c] i disj
  have "\<exists>new h'. vstack heap0 space0 space_disjoint = Inr (new, h') \<and>
      str_lists h' (id2row new) =
        str_lists heap0 (id2row space0) @ str_lists heap0 (id2row space_disjoint) \<and>
      nrows (cooccurrence_matrix new) =
        nrows (cooccurrence_matrix space0) + nrows (cooccurrence_matrix space_disjoint) \<and>
      op_lists h' (operations new) = [] \<and>
      str_lists h' (id2column new) = str_lists heap0 (id2column space0) \<and>
      entries (cooccurrence_matrix new) =
        entries (cooccurrence_matrix space0) @ entries (cooccurrence_matrix space_disjoint) \<and>
      valid_space h' new"
    by blast
  then have "\<exists>new h'. vstack heap0 space0 space_disjoint = Inr (new, h') \<and>
      str_lists h' (id2row new) = [''dog'', ''cat'', ''car'', ''bus'', ''van''] \<and>
      nrows (cooccurrence_matrix new) = 5 \<and>
      op_lists h' (operations new) = [] \<and>
      valid_space h' new"
    unfolding r1 r2 n by auto
  with valid_space0 valid_space_disjoint c i disj show ?thesis by blast
qed

text \<open>
  Claim C4 as stated fails for two spaces with identical columns that share the row
  \<open>cat\<close>: there is no result, the merge of the row mappings raises.
\<close>

theorem vstack_shared_row_counterexample:
  "valid_space heap0 space0 \<and> valid_space heap0 space_overlap \<and>
   ncols (cooccurrence_matrix space0) = ncols (cooccurrence_matrix space_overlap) \<and>
   str_lists heap0 (id2column space0) = str_lists heap0 (id2column space_overlap) \<and>
   vstack heap0 space0 space_overlap = Inl DuplicateKey \<and>
   \<not> (\<exists>new h'. vstack heap0 space0 space_overlap = Inr (new, h') \<and>
         str_lists h' (id2row new) =
           str_lists heap0 (id2row space0) @ str_lists heap0 (id2row space_overlap))"
proof -
  have "vstack heap0 space0 space_overlap = Inl DuplicateKey"
    by (simp add: vstack_def heap0_def space0_def space_overlap_def new_dict_def)
  moreover have "ncols (cooccurrence_matrix space0) = ncols (cooccurrence_matrix space_overlap)"
    by (simp add: space0_def space_overlap_def)
  moreover have "str_lists heap0 (id2column space0) = str_lists heap0 (id2column space_overlap)"
    by (simp add: heap0_def space0_def space_overlap_def)
  ultimately show ?thesis
    using valid_space0 valid_space_overlap by simp
qed

subsection \<open>Applying a transformation\<close>

lemma apply_weighting_unfold:
  assumes v: "valid_space h self"
      and a: "op_apply op (cooccurrence_matrix self) = Inr new_matrix"
  shows "Space_apply h self (Instance (Weighting op)) =
           Space_init (apply_heap h self op) new_matrix
             (Suc (fresh h)) (Suc (Suc (Suc (fresh h)))) (Some (Suc (Suc (fresh h))))
             (Some (Suc (Suc (Suc (Suc (fresh h)))))) (Some (fresh h))"
proof -
  have refs: "operations self \<noteq> fresh h" "id2row self \<noteq> fresh h" "row2id self \<noteq> fresh h"
    "id2column self \<noteq> fresh h" "column2id self \<noteq> fresh h"
    "id2column self \<noteq> Suc (fresh h)" "row2id self \<noteq> Suc (fresh h)"
    "column2id self \<noteq> Suc (fresh h)" "column2id self \<noteq> Suc (Suc (fresh h))"
    "id2column self \<noteq> Suc (Suc (fresh h))" "column2id self \<noteq> Suc (Suc (Suc (fresh h)))"
    using v by (auto simp add: valid_space_def)
  show ?thesis
    using a refs
    by (simp add: Space_apply_def assert_is_instance_def apply_heap_def new_dict_def
          new_str_list_def new_op_list_def append_op_def Let_def fun_upd_twist)
qed

lemma apply_weighting_success:
  assumes v: "valid_space h self"
      and a: "op_apply op (cooccurrence_matrix self) = Inr new_matrix"
      and sh: "shape new_matrix = shape (cooccurrence_matrix self)"
  shows "Space_apply h self (Instance (Weighting op)) =
           Inr (\<lparr>cooccurrence_matrix = new_matrix,
                 row2id = Suc (Suc (fresh h)), id2row = Suc (fresh h),
                 column2id = Suc (Suc (Suc (Suc (fresh h)))),
                 id2column = Suc (Suc (Suc (fresh h))),
                 operations = fresh h\<rparr>, apply_heap h self op)"
proof -
  let ?h' = "apply_heap h self op"
  have invr: "inverse_of (dicts h (row2id self)) (str_lists h (id2row self))"
    and invc: "inverse_of (dicts h (column2id self)) (str_lists h (id2column self))"
    and rows: "nrows (cooccurrence_matrix self) = length (str_lists h (id2row self))"
    and cols: "str_lists h (id2column self) = [] \<or>
               ncols (cooccurrence_matrix self) = length (str_lists h (id2column self))"
    using v by (simp_all add: valid_space_def)
  have look: "str_lists ?h' (Suc (fresh h)) = str_lists h (id2row self)"
    "dicts ?h' (Suc (Suc (fresh h))) = dicts h (row2id self)"
    "str_lists ?h' (Suc (Suc (Suc (fresh h)))) = str_lists h (id2column self)"
    "dicts ?h' (Suc (Suc (Suc (Suc (fresh h))))) = dicts h (column2id self)"
    by (simp_all add: apply_heap_def)
  have lenr: "length (dicts h (row2id self)) = length (str_lists h (id2row self))"
    and lenc: "length (dicts h (column2id self)) = length (str_lists h (id2column self))"
    using invr invc by (simp_all add: inverse_of_def)
  have shape_ok: "assert_shape_consistent new_matrix (str_lists h (id2row self))
                    (str_lists h (id2column self)) (dicts h (row2id self))
                    (dicts h (column2id self)) = Inr ()"
    using sh rows cols lenr lenc by (auto simp add: assert_shape_consistent_def shape_def)
  have "Space_init ?h' new_matrix
             (Suc (fresh h)) (Suc (Suc (Suc (fresh h)))) (Some (Suc (Suc (fresh h))))
             (Some (Suc (Suc (Suc (Suc (fresh h)))))) (Some (fresh h)) =
        Inr (\<lparr>cooccurrence_matrix = new_matrix,
                 row2id = Suc (Suc (fresh h)), id2row = Suc (fresh h),
                 column2id = Suc (Suc (Suc (Suc (fresh h)))),
                 id2column = Suc (Suc (Suc (fresh h))),
                 operations = fresh h\<rparr>, ?h')"
    using inverse_of_match [OF invr] inverse_of_match [OF invc] shape_ok
    by (intro Space_init_Some) (simp_all add: look)
  then show ?thesis
    using apply_weighting_unfold [OF v a] by simp
qed

lemma apply_heap_frame:
  assumes "r < fresh h"
  shows "str_lists (apply_heap h self op) r = str_lists h r"
    and "dicts (apply_heap h self op) r = dicts h r"
    and "op_lists (apply_heap h self op) r = op_lists h r"
  using assms by (simp_all add: apply_heap_def)

text \<open>
  Claim C2. For a valid space and a weighting whose operation returns a matrix of the
  shape of the space's matrix, \<^verbatim>\<open>apply\<close> returns a new space: its lists and dicts
  are objects that did not exist before; its \<^verbatim>\<open>id2row\<close>, \<^verbatim>\<open>row2id\<close>,
  \<^verbatim>\<open>id2column\<close> and \<^verbatim>\<open>column2id\<close> have the contents of the original's; its list
  of operations is the original's with the new operation appended at the end. Every
  object that existed before the call, so every list and dict of the original space, has
  the contents it had. The new space is valid when the new matrix is rectangular.
\<close>

theorem apply_weighting:
  assumes "valid_space h self"
      and "op_apply op (cooccurrence_matrix self) = Inr new_matrix"
      and "shape new_matrix = shape (cooccurrence_matrix self)"
  shows "\<exists>new h'.
           Space_apply h self (Instance (Weighting op)) = Inr (new, h') \<and>
           cooccurrence_matrix new = new_matrix \<and>
           str_lists h' (id2row new) = str_lists h (id2row self) \<and>
           dicts h' (row2id new) = dicts h (row2id self) \<and>
           str_lists h' (id2column new) = str_lists h (id2column self) \<and>
           dicts h' (column2id new) = dicts h (column2id self) \<and>
           op_lists h' (operations new) = op_lists h (operations self) @ [op] \<and>
           fresh h \<le> id2row new \<and> fresh h \<le> row2id new \<and> fresh h \<le> id2column new \<and>
           fresh h \<le> column2id new \<and> fresh h \<le> operations new \<and>
           (\<forall>r<fresh h. str_lists h' r = str_lists h r \<and> dicts h' r = dicts h r \<and>
                         op_lists h' r = op_lists h r) \<and>
           str_lists h' (id2row self) = str_lists h (id2row self) \<and>
           dicts h' (row2id self) = dicts h (row2id self) \<and>
           str_lists h' (id2column self) = str_lists h (id2column self) \<and>
           dicts h' (column2id self) = dicts h (column2id self) \<and>
           op_lists h' (operations self) = op_lists h (operations self) \<and>
           (matrix_ok new_matrix \<longrightarrow> valid_space h' new)"
proof -
  have refs: "id2row self < fresh h" "row2id self < fresh h" "id2column self < fresh h"
    "column2id self < fresh h" "operations self < fresh h"
    using assms(1) by (simp_all add: valid_space_def)
  have valid: "valid_space (apply_heap h self op)
                 \<lparr>cooccurrence_matrix = new_matrix,
                  row2id = Suc (Suc (fresh h)), id2row = Suc (fresh h),
                  column2id = Suc (Suc (Suc (Suc (fresh h)))),
                  id2column = Suc (Suc (Suc (fresh h))),
                  operations = fresh h\<rparr>"
    if "matrix_ok new_matrix"
    using that assms(1,3)
    by (simp add: valid_space_def apply_heap_def shape_def)
  show ?thesis
    by (intro exI conjI impI, rule apply_weighting_success [OF assms])
       (simp_all add: apply_heap_frame refs valid, simp_all add: apply_heap_def)
qed


theorem apply_weighting_witness:
  "valid_space heap0 space0 \<and>
   op_apply double0 (cooccurrence_matrix space0) =
     Inr \<lparr>ncols = 2, entries = [[2, 4], [6, 8], [0, 10]]\<rparr> \<and>
   shape \<lparr>ncols = 2, entries = [[2, 4], [6, 8], [0, 10]]\<rparr> = shape (cooccurrence_matrix space0) \<and>
   (\<exists>new h'.
      Space_apply heap0 space0 (Instance (Weighting double0)) = Inr (new, h') \<and>
      cooccurrence_matrix new = \<lparr>ncols = 2, entries = [[2, 4], [6, 8], [0, 10]]\<rparr> \<and>
      str_lists h' (id2row new) = [''dog'', ''cat'', ''car''] \<and>
      dicts h' (row2id new) = [(''dog'', 0), (''cat'', 1), (''car'', 2)] \<and>
      str_lists h' (id2column new) = [''f1'', ''f2''] \<and>
      dicts h' (column2id new) = [(''f1'', 0), (''f2'', 1)] \<and>
      op_lists h' (operations new) = [double0] \<and>
      op_lists h' (operations space0) = [])"
proof -
  let ?m = "\<lparr>ncols = 2, entries = [[2, 4], [6, 8], [0, 10]]\<rparr>"
  have a: "op_apply double0 (cooccurrence_matrix space0) = Inr ?m"
    by (simp add: double0_def space0_def)
  have sh: "shape ?m = shape (cooccurrence_matrix space0)"
    by (simp add: shape_def nrows_def space0_def)
  have vals: "str_lists heap0 (id2row space0) = [''dog'', ''cat'', ''car'']"
    "dicts heap0 (row2id space0) = [(''dog'', 0), (''cat'', 1), (''car'', 2)]"
    "str_lists heap0 (id2column space0) = [''f1'', ''f2'']"
    "dicts heap0 (column2id space0) = [(''f1'', 0), (''f2'', 1)]"
    "op_lists heap0 (operations space0) = []"
    by (simp_all add: heap0_def space0_def)
  from apply_weighting [OF valid_space0 a sh]
  have "\<exists>new h'.
      Space_apply heap0 space0 (Instance (Weighting double0)) = Inr (new, h') \<and>
      cooccurrence_matrix new = ?m \<and>
      str_lists h' (id2row new) = [''dog'', ''cat'', ''car''] \<and>
      dicts h' (row2id new) = [(''dog'', 0), (''cat'', 1), (''car'', 2)] \<and>
      str_lists h' (id2column new) = [''f1'', ''f2''] \<and>
      dicts h' (column2id new) = [(''f1'', 0), (''f2'', 1)] \<and>
      op_lists h' (operations new) = [double0] \<and>
      op_lists h' (operations space0) = []"
    unfolding vals by auto
  with valid_space0 a sh show ?thesis by blast
qed

text \<open>
  Claim C7 describes what \<^verbatim>\<open>apply\<close> is written to do for a feature selection, and
  the code does not do it: \<^verbatim>\<open>self.id2column[transformation.selected_columns]\<close>
  subscripts a Python list with the list of the selected indices, which raises
  \<^verbatim>\<open>TypeError\<close>. Whenever the operation itself returns, \<^verbatim>\<open>apply\<close> raises that
  error and returns no space.
\<close>

theorem apply_feature_selection_raises:
  "op_apply op (cooccurrence_matrix self) = Inr new_matrix \<Longrightarrow>
   Space_apply h self (Instance (FeatureSelection op selected_columns)) =
     Inl (TypeError ''list indices must be integers, not %s'' [Str ''list''])"
  by (simp add: Space_apply_def assert_is_instance_def list_getitem_list_def Let_def
        split_def)

theorem apply_feature_selection_raises_witness:
  "valid_space heap0 space0 \<and>
   op_apply keep_first_column (cooccurrence_matrix space0) =
     Inr \<lparr>ncols = 1, entries = [[1], [3], [0]]\<rparr> \<and>
   Space_apply heap0 space0 (Instance (FeatureSelection keep_first_column [0])) =
     Inl (TypeError ''list indices must be integers, not %s'' [Str ''list''])"
proof -
  have a: "op_apply keep_first_column (cooccurrence_matrix space0) =
             Inr \<lparr>ncols = 1, entries = [[1], [3], [0]]\<rparr>"
    by (simp add: keep_first_column_def space0_def)
  from apply_feature_selection_raises [OF a, of heap0 "[0]"] valid_space0 a
  show ?thesis by simp
qed

subsection \<open>Replacing the matrix\<close>

text \<open>
  Claim C8 describes what \<^verbatim>\<open>set_cooccurrence_matrix\<close> is written to do, and the
  code does not do it: after the type check it looks \<^verbatim>\<open>assert_shape_consistent\<close> up
  on \<^verbatim>\<open>self\<close>, which has no such attribute, so every call raises (TypeMismatch for
  an argument that is not a matrix, \<^verbatim>\<open>AttributeError\<close> for every matrix, also one
  of the right shape) and no matrix is ever installed.
\<close>

theorem set_cooccurrence_matrix_raises:
  "set_cooccurrence_matrix self matrix' =
     (case matrix' of
        Instance mat \<Rightarrow> Inl (AttributeError ''assert_shape_consistent'')
      | Other_object \<Rightarrow> Inl TypeMismatch)"
  by (simp add: set_cooccurrence_matrix_def assert_is_instance_def Space_getattr_def
        Space_attributes_def split: pyarg.splits)

theorem set_cooccurrence_matrix_raises_witness:
  "valid_space heap0 space0 \<and>
   shape \<lparr>ncols = 2, entries = [[2, 4], [6, 8], [0, 10]]\<rparr> = shape (cooccurrence_matrix space0) \<and>
   set_cooccurrence_matrix space0 (Instance \<lparr>ncols = 2, entries = [[2, 4], [6, 8], [0, 10]]\<rparr>) =
     Inl (AttributeError ''assert_shape_consistent'')"
  using set_cooccurrence_matrix_raises
          [of space0 "Instance \<lparr>ncols = 2, entries = [[2, 4], [6, 8], [0, 10]]\<rparr>"]
        valid_space0
  by (simp add: shape_def nrows_def space0_def)

end
